theory Spec2Isabelle
  imports Complex_Main
begin

section \<open>The Loki datasource: query dispatch, fallback and request construction\<close>

text \<open>
  A shallow embedding of \<^verbatim>\<open>public/app/plugins/datasource/loki/datasource.ts\<close>.

  JavaScript numbers are modelled by their exact values: integral quantities (epoch
  milliseconds and nanoseconds, line limits) as \<open>int\<close>, the interval and range handed to
  \<^verbatim>\<open>adjustInterval\<close> as \<open>real\<close>; the rounding of IEEE doubles is not modelled, and
  \<^verbatim>\<open>NaN\<close> and the infinities are no inputs. A property that may be absent
  (\<^verbatim>\<open>undefined\<close>) is an \<open>option\<close>. Opaque JSON payloads that the datasource only passes
  on to its collaborators are strings.

  Effects are explicit. A method that sends requests, opens live streams or writes the
  field \<^verbatim>\<open>version\<close> takes the state of the datasource and returns the new one together
  with its result; an observable is represented by what its subscriber receives. A method
  on its own (\<^verbatim>\<open>getVersion\<close>, \<^verbatim>\<open>runInstantQuery\<close>, \<^verbatim>\<open>runRangeQueryWithFallback\<close>,
  \<^verbatim>\<open>runLegacyQuery\<close>, \<^verbatim>\<open>runLiveQuery\<close>) is the call together with the settling of its
  responses. A dispatch (\<^verbatim>\<open>query\<close>) keeps the two apart: every sub-query is called while the
  array is built, which sends its first request and reads \<^verbatim>\<open>version\<close> as it is then, and
  the responses settle afterwards, in the order of the array.
\<close>

subsection \<open>Numbers\<close>

text \<open>
  The remainder operator \<^verbatim>\<open>%\<close> of JavaScript truncates: the sign of the result is the
  sign of the dividend.
\<close>

definition js_rem :: "int \<Rightarrow> int \<Rightarrow> int" where
  "js_rem a b = sgn a * (\<bar>a\<bar> mod \<bar>b\<bar>)"

text \<open>
  \<^verbatim>\<open>adjustInterval(interval, range)\<close>. The division is evaluated only behind the guard
  \<^verbatim>\<open>interval !== 0\<close> (\<^verbatim>\<open>&&\<close> short-circuits), where it is the division of the reals.
\<close>

definition adjustInterval :: "real \<Rightarrow> real \<Rightarrow> real" where
  "adjustInterval interval rng =
     (let interval' =
        (if interval \<noteq> 0 \<and> rng / interval > 11000
         then of_int \<lceil>rng / 11000\<rceil>
         else interval)
      in max interval' 1000)"

text \<open>
  The object \<^verbatim>\<open>alignedTimes\<close> of \<^verbatim>\<open>createRangeQuery\<close>, as a pair \<open>(start, end)\<close>.
\<close>

definition alignedTimes :: "int \<Rightarrow> int \<Rightarrow> int \<times> int" where
  "alignedTimes startNs endNs =
     (startNs - js_rem startNs 1000000000,
      endNs + (1000000000 - js_rem endNs 1000000000))"

text \<open>
  \<^verbatim>\<open>Math.min(options.maxDataPoints || Infinity, this.maxLines)\<close>, the expression behind
  every \<^verbatim>\<open>limit\<close> and \<^verbatim>\<open>size\<close> field: an absent or zero \<^verbatim>\<open>maxDataPoints\<close> is falsy and
  is replaced by \<^verbatim>\<open>Infinity\<close>, which leaves \<^verbatim>\<open>maxLines\<close>.
\<close>

definition lineLimit :: "int option \<Rightarrow> int \<Rightarrow> int" where
  "lineLimit maxDataPoints maxLines =
     (case maxDataPoints of
        None \<Rightarrow> maxLines
      | Some m \<Rightarrow> if m = 0 then maxLines else min m maxLines)"

definition DEFAULT_MAX_LINES :: int where
  "DEFAULT_MAX_LINES = 1000"

text \<open>
  The constructor's \<^verbatim>\<open>parseInt(settingsData.maxLines, 10) || DEFAULT_MAX_LINES\<close>; the
  argument is the parsed setting, \<open>None\<close> when \<^verbatim>\<open>parseInt\<close> gives \<^verbatim>\<open>NaN\<close>.
\<close>

definition configuredMaxLines :: "int option \<Rightarrow> int" where
  "configuredMaxLines parsed =
     (case parsed of
        None \<Rightarrow> DEFAULT_MAX_LINES
      | Some n \<Rightarrow> if n = 0 then DEFAULT_MAX_LINES else n)"

subsection \<open>Data\<close>

type_synonym json = string

record LokiQuery =
  expr :: string
  refId :: string
  liveStreaming :: bool
  hide :: bool

text \<open>A \<^verbatim>\<open>DateTime\<close> is represented by its \<^verbatim>\<open>valueOf()\<close>, epoch milliseconds.\<close>

datatype DateInput = DateString string | DateTime int

record TimeRange =
  range_from :: DateInput
  range_to :: DateInput

text \<open>
  Modelled from the spec: the enum \<^verbatim>\<open>ExploreMode\<close> of \<^verbatim>\<open>app/types\<close> is not among the
  sources; the dispatcher knows a metrics mode and a logs mode, and a request may carry
  neither.
\<close>

datatype ExploreMode = Metrics | Logs

text \<open>
  One record stands for \<^verbatim>\<open>DataQueryRequest<LokiQuery>\<close> and for the narrower option
  objects (\<^verbatim>\<open>RangeQueryOptions\<close> and the inline option types), which pick fields of it.
\<close>

record DataQueryRequest =
  targets :: "LokiQuery list"
  timeRange :: "TimeRange option"
  intervalMs :: "real option"
  maxDataPoints :: "int option"
  reverse :: bool
  exploreMode :: "ExploreMode option"

text \<open>
  The \<^verbatim>\<open>data\<close> property of what the transport delivers: absent, a string, an object
  with an optional \<^verbatim>\<open>error\<close> property, a \<^verbatim>\<open>LokiResponse\<close> (its \<^verbatim>\<open>data.resultType\<close> and
  \<^verbatim>\<open>data.result\<close>), or a \<^verbatim>\<open>LokiLegacyStreamResponse\<close> (its \<^verbatim>\<open>streams\<close>).
\<close>

datatype Payload =
    NoData
  | TextData string
  | ErrorData "json option"
  | LokiData string json
  | LegacyData json

text \<open>
  What \<^verbatim>\<open>backendSrv.datasourceRequest\<close> resolves or rejects with (\<^verbatim>\<open>any\<close> in the source):
  the properties the datasource reads.
\<close>

record HttpResult =
  status :: "int option"
  statusText :: "string option"
  cancelled :: bool
  message :: "string option"
  payload :: Payload

datatype 'a promise = Resolved 'a | Rejected HttpResult

text \<open>\<^verbatim>\<open>DEFAULT_QUERY_PARAMS\<close> and the request objects that spread it.\<close>

record QueryParams =
  q_direction :: string
  q_limit :: int
  q_regexp :: string
  q_query :: string

record LokiRangeQueryRequest = QueryParams +
  r_start :: "int option"
  r_end :: "int option"
  r_step :: "int option"

record LokiLegacyQueryRequest = QueryParams +
  l_start :: "int option"
  l_end :: "int option"
  l_refId :: string

record LokiInstantQueryRequest =
  i_query :: string
  i_time :: int
  i_limit :: int

datatype RequestData =
    RangeParams LokiRangeQueryRequest
  | InstantParams LokiInstantQueryRequest
  | LegacyParams LokiLegacyQueryRequest

text \<open>
  A call \<^verbatim>\<open>_request(apiUrl, data)\<close> as the transport sees it: the base URL followed by
  the endpoint, and the parameters that \<^verbatim>\<open>serializeParams\<close> appends (\<open>None\<close> when
  \<^verbatim>\<open>data\<close> is absent and the URL carries no query string).
\<close>

record Request =
  url :: string
  params :: "RequestData option"

record ParsedQuery =
  p_query :: string
  p_regexp :: string

record LegacyTarget =
  t_query :: string
  t_regexp :: string
  t_url :: string
  t_refId :: string
  t_size :: int

text \<open>A data frame: its \<^verbatim>\<open>datapoints\<close> property, when it has one, and the rest.\<close>

record Frame =
  datapoints :: "json option"
  content :: json

text \<open>
  Modelled from the spec: the enum \<^verbatim>\<open>LoadingState\<close> is imported, not defined here; the
  datasource sets \<^verbatim>\<open>Done\<close> and \<^verbatim>\<open>Streaming\<close>.
\<close>

datatype LoadingState = NotStarted | Loading | Streaming | Done | LoadingError

record DataQueryResponse =
  data :: "Frame list"
  key :: "string option"
  state :: "LoadingState option"

text \<open>
  Thrown values: the \<^verbatim>\<open>DataQueryError\<close> of \<^verbatim>\<open>processError\<close> (message, refId, status,
  statusText), \<^verbatim>\<open>new Error(message)\<close>, the \<^verbatim>\<open>TypeError\<close> of a property read on
  \<^verbatim>\<open>undefined\<close>, and a rejection value passed on as it is.
\<close>

datatype error =
    DataQueryError string string "int option" "string option"
  | JsError string
  | TypeError
  | Raw HttpResult

subsection \<open>Observables\<close>

text \<open>
  An observable is represented by what a subscriber sees: the values emitted, in order,
  and how the stream ends. \<open>Active\<close> is a stream that stays open (a live tail).
\<close>

datatype ending = Completed | Failed error | Active

datatype 'a obs = Obs (emitted: "'a list") (ending: ending)

definition of_obs :: "'a \<Rightarrow> 'a obs" where
  "of_obs x = Obs [x] Completed"

text \<open>\<^verbatim>\<open>from(promise)\<close>: the resolved value, then completion; or the rejection as error.\<close>

definition from_promise :: "'a promise \<Rightarrow> 'a obs" where
  "from_promise p = (case p of Resolved x \<Rightarrow> Obs [x] Completed | Rejected e \<Rightarrow> Obs [] (Failed (Raw e)))"

text \<open>
  \<^verbatim>\<open>catchError(h)\<close>. Every source it is applied to is a \<^verbatim>\<open>from(promise)\<close>, whose only
  error is the rejection value; the handler returns the replacement stream or throws.
\<close>

definition catchError :: "(HttpResult \<Rightarrow> error + 'a obs) \<Rightarrow> 'a obs \<Rightarrow> 'a obs" where
  "catchError h source =
     (case ending source of
        Failed (Raw e) \<Rightarrow>
          (case h e of
             Inl thrown \<Rightarrow> Obs (emitted source) (Failed thrown)
           | Inr (Obs ys e') \<Rightarrow> Obs (emitted source @ ys) e')
      | _ \<Rightarrow> source)"

definition filter_obs :: "('a \<Rightarrow> bool) \<Rightarrow> 'a obs \<Rightarrow> 'a obs" where
  "filter_obs p source = Obs (filter p (emitted source)) (ending source)"

text \<open>\<^verbatim>\<open>map(f)\<close> with a projection that may throw: the first throw ends the stream.\<close>

fun map_emitted :: "('a \<Rightarrow> error + 'b) \<Rightarrow> 'a list \<Rightarrow> ending \<Rightarrow> 'b obs" where
  "map_emitted f [] e = Obs [] e"
| "map_emitted f (x # xs) e =
     (case f x of
        Inl thrown \<Rightarrow> Obs [] (Failed thrown)
      | Inr y \<Rightarrow> (case map_emitted f xs e of Obs ys e' \<Rightarrow> Obs (y # ys) e'))"

definition map_obs :: "('a \<Rightarrow> error + 'b) \<Rightarrow> 'a obs \<Rightarrow> 'b obs" where
  "map_obs f source = map_emitted f (emitted source) (ending source)"

text \<open>
  \<^verbatim>\<open>switchMap\<close> and \<^verbatim>\<open>mergeMap\<close> with an inner stream that acts on the datasource (state
  \<open>'s\<close>). The sources they are applied to emit at most one value, where the two
  operators agree: the inner stream is subscribed for it and its values are passed on.
\<close>

definition join_ending :: "ending \<Rightarrow> ending \<Rightarrow> ending" where
  "join_ending inner outer =
     (case inner of
        Active \<Rightarrow> (case outer of Failed x \<Rightarrow> Failed x | _ \<Rightarrow> Active)
      | _ \<Rightarrow> outer)"

fun flatten_emitted :: "('a \<Rightarrow> 's \<Rightarrow> 'b obs \<times> 's) \<Rightarrow> 'a list \<Rightarrow> ending \<Rightarrow> 's \<Rightarrow> 'b obs \<times> 's" where
  "flatten_emitted f [] e s = (Obs [] e, s)"
| "flatten_emitted f (x # xs) e s =
     (case f x s of
        (Obs ys lokiSpecialRegexEscape_example, s1) \<Rightarrow>
          (case lokiSpecialRegexEscape_example of
             Failed thrown \<Rightarrow> (Obs ys (Failed thrown), s1)
           | _ \<Rightarrow>
             (case flatten_emitted f xs e s1 of
                (Obs zs e2, s2) \<Rightarrow> (Obs (ys @ zs) (join_ending lokiSpecialRegexEscape_example e2), s2))))"

definition switchMap :: "('a \<Rightarrow> 's \<Rightarrow> 'b obs \<times> 's) \<Rightarrow> 'a obs \<Rightarrow> 's \<Rightarrow> 'b obs \<times> 's" where
  "switchMap f source s = flatten_emitted f (emitted source) (ending source) s"

definition mergeMap :: "('a \<Rightarrow> 's \<Rightarrow> 'b obs \<times> 's) \<Rightarrow> 'a obs \<Rightarrow> 's \<Rightarrow> 'b obs \<times> 's" where
  "mergeMap f source s = flatten_emitted f (emitted source) (ending source) s"

subsection \<open>The datasource and its collaborators\<close>

text \<open>
  The collaborators the datasource imports or is constructed with, none of them part of
  the file: the transport (\<^verbatim>\<open>backendSrv.datasourceRequest\<close>, a function of the request),
  the template service (with the interpolation callback applied), \<^verbatim>\<open>parseQuery\<close>,
  \<^verbatim>\<open>dateMath.parse\<close> (the \<^verbatim>\<open>valueOf()\<close> of its result), the URL helpers, the result
  transformers, and the frame batches the \<^verbatim>\<open>LiveStreams\<close> object delivers for a target.
\<close>

record Collaborators =
  datasourceRequest :: "Request \<Rightarrow> HttpResult promise"
  templateSrv_replace :: "string \<Rightarrow> string"
  parseQuery :: "string \<Rightarrow> ParsedQuery"
  dateMath_parse :: "string \<Rightarrow> bool \<Rightarrow> int"
  encodeURIComponent :: "string \<Rightarrow> string"
  convertToWebSocketUrl :: "string \<Rightarrow> string"
  safeStringifyValue :: "json \<Rightarrow> string"
  lokiResultsToTableModel :: "json \<Rightarrow> nat \<Rightarrow> string \<Rightarrow> bool \<Rightarrow> Frame"
  processRangeQueryResponse ::
    "Payload \<Rightarrow> LokiQuery \<Rightarrow> LokiRangeQueryRequest \<Rightarrow> nat \<Rightarrow> int \<Rightarrow> json \<Rightarrow> bool
       \<Rightarrow> DataQueryResponse obs"
  lokiLegacyStreamsToDataframes ::
    "Payload \<Rightarrow> LokiLegacyQueryRequest \<Rightarrow> int \<Rightarrow> json \<Rightarrow> bool \<Rightarrow> Frame list"
  getStream :: "LegacyTarget \<Rightarrow> Frame list obs"
  getLegacyStream :: "LegacyTarget \<Rightarrow> Frame list obs"

text \<open>The fields of the instance that are set by the constructor and never written again.\<close>

record LokiDatasource =
  baseUrl :: string
  jsonData :: json
  maxLines :: int

datatype Subscription = ModernTail LegacyTarget | LegacyTail LegacyTarget

text \<open>
  What the methods change: the field \<^verbatim>\<open>version\<close> (\<open>None\<close> while it is \<^verbatim>\<open>undefined\<close>),
  the requests handed to the transport, and the live streams asked of \<^verbatim>\<open>LiveStreams\<close>.
\<close>

record DsState =
  version :: "string option"
  requests :: "Request list"
  subscriptions :: "Subscription list"

definition LEGACY_QUERY_ENDPOINT :: string where
  "LEGACY_QUERY_ENDPOINT = ''/api/prom/query''"

definition RANGE_QUERY_ENDPOINT :: string where
  "RANGE_QUERY_ENDPOINT = ''/loki/api/v1/query_range''"

definition INSTANT_QUERY_ENDPOINT :: string where
  "INSTANT_QUERY_ENDPOINT = ''/loki/api/v1/query''"

definition DEFAULT_QUERY_PARAMS :: QueryParams where
  "DEFAULT_QUERY_PARAMS =
     \<lparr>q_direction = ''BACKWARD'', q_limit = DEFAULT_MAX_LINES, q_regexp = [], q_query = []\<rparr>"

text \<open>
  Modelled from the spec: the enum \<^verbatim>\<open>LokiResultType\<close> of \<^verbatim>\<open>./types\<close> is not among the
  sources; the response shape of the spec gives \<^verbatim>\<open>"streams"\<close> as the result type of a raw
  log stream.
\<close>

definition LokiResultType_Stream :: string where
  "LokiResultType_Stream = ''streams''"

definition request :: "Collaborators \<Rightarrow> LokiDatasource \<Rightarrow> string \<Rightarrow> RequestData option \<Rightarrow> DsState
    \<Rightarrow> HttpResult promise \<times> DsState" where
  "request D ds apiUrl dat s =
     (let req = \<lparr>url = baseUrl ds @ apiUrl, params = dat\<rparr>
      in (datasourceRequest D req, s\<lparr>requests := requests s @ [req]\<rparr>))"

text \<open>
  The value of \<^verbatim>\<open>this.version\<close> where the test \<^verbatim>\<open>if (this.version)\<close> holds: a non-empty
  string.
\<close>

definition cachedVersion :: "DsState \<Rightarrow> string option" where
  "cachedVersion s =
     (case version s of
        Some v \<Rightarrow> if v \<noteq> [] then Some v else None
      | None \<Rightarrow> None)"

text \<open>\<^verbatim>\<open>getVersion\<close>. The promise is represented by how it settles.\<close>

definition getVersion :: "Collaborators \<Rightarrow> LokiDatasource \<Rightarrow> DsState \<Rightarrow> string promise \<times> DsState" where
  "getVersion D ds s =
     (case cachedVersion s of
        Some v \<Rightarrow> (Resolved v, s)
      | None \<Rightarrow>
          (case request D ds RANGE_QUERY_ENDPOINT None s of
             (Resolved r, s1) \<Rightarrow> (Resolved ''v1'', s1\<lparr>version := Some ''v1''\<rparr>)
           | (Rejected err, s1) \<Rightarrow>
               (let v' = (if status err \<noteq> Some 404 then ''v1'' else ''v0'')
                in (Resolved v', s1\<lparr>version := Some v'\<rparr>))))"

text \<open>\<^verbatim>\<open>getTime\<close>: \<^verbatim>\<open>Math.ceil\<close> of an integral number of milliseconds times \<^verbatim>\<open>1e6\<close>.\<close>

definition getTime :: "Collaborators \<Rightarrow> DateInput \<Rightarrow> bool \<Rightarrow> int" where
  "getTime D date roundUp =
     (case date of
        DateString str \<Rightarrow> dateMath_parse D str roundUp * 1000000
      | DateTime ms \<Rightarrow> ms * 1000000)"

definition processError :: "Collaborators \<Rightarrow> HttpResult \<Rightarrow> LokiQuery \<Rightarrow> error" where
  "processError D err target =
     (let message0 =
            (case statusText err of
               Some t \<Rightarrow> if t \<noteq> [] then t
                         else ''Unknown error during query transaction. Please check JS console logs.''
             | None \<Rightarrow> ''Unknown error during query transaction. Please check JS console logs.'');
          fromMessage =
            (case message err of
               Some m \<Rightarrow> if m \<noteq> [] then m else message0
             | None \<Rightarrow> message0);
          message1 =
            (case payload err of
               NoData \<Rightarrow> fromMessage
             | TextData d \<Rightarrow> if d \<noteq> [] then d else fromMessage
             | ErrorData e \<Rightarrow>
                 (case e of
                    Some x \<Rightarrow> if x \<noteq> [] then safeStringifyValue D x else message0
                  | None \<Rightarrow> message0)
             | LokiData rt res \<Rightarrow> message0
             | LegacyData streams \<Rightarrow> message0)
      in DataQueryError message1 (refId target) (status err) (statusText err))"

definition throwUnless :: "Collaborators \<Rightarrow> HttpResult \<Rightarrow> bool \<Rightarrow> LokiQuery \<Rightarrow> error + HttpResult obs" where
  "throwUnless D err condition target =
     (if condition then Inr (of_obs err) else Inl (processError D err target))"

definition isTimeSeries :: "Frame \<Rightarrow> bool" where
  "isTimeSeries d = (datapoints d \<noteq> None)"

definition createLegacyLiveTarget :: "Collaborators \<Rightarrow> LokiDatasource \<Rightarrow> LokiQuery \<Rightarrow> DataQueryRequest
    \<Rightarrow> LegacyTarget" where
  "createLegacyLiveTarget D ds target options =
     (let parsed = parseQuery D (expr target);
          ps = ''query='' @ encodeURIComponent D (p_query parsed)
      in \<lparr>t_query = p_query parsed,
          t_regexp = p_regexp parsed,
          t_url = convertToWebSocketUrl D (baseUrl ds @ ''/api/prom/tail?'' @ ps),
          t_refId = refId target,
          t_size = lineLimit (maxDataPoints options) (maxLines ds)\<rparr>)"

definition createLiveTarget :: "Collaborators \<Rightarrow> LokiDatasource \<Rightarrow> LokiQuery \<Rightarrow> DataQueryRequest
    \<Rightarrow> LegacyTarget" where
  "createLiveTarget D ds target options =
     (let parsed = parseQuery D (expr target);
          ps = ''query='' @ encodeURIComponent D (p_query parsed)
      in \<lparr>t_query = p_query parsed,
          t_regexp = p_regexp parsed,
          t_url = convertToWebSocketUrl D (baseUrl ds @ ''/loki/api/v1/tail?'' @ ps),
          t_refId = refId target,
          t_size = lineLimit (maxDataPoints options) (maxLines ds)\<rparr>)"

text \<open>\<^verbatim>\<open>this.streams.getStream\<close> and \<^verbatim>\<open>getLegacyStream\<close>: the stream is asked for and returned.\<close>

definition streams_getStream :: "Collaborators \<Rightarrow> LegacyTarget \<Rightarrow> DsState \<Rightarrow> Frame list obs \<times> DsState" where
  "streams_getStream D liveTarget s =
     (getStream D liveTarget, s\<lparr>subscriptions := subscriptions s @ [ModernTail liveTarget]\<rparr>)"

definition streams_getLegacyStream :: "Collaborators \<Rightarrow> LegacyTarget \<Rightarrow> DsState \<Rightarrow> Frame list obs \<times> DsState" where
  "streams_getLegacyStream D legacyTarget s =
     (getLegacyStream D legacyTarget, s\<lparr>subscriptions := subscriptions s @ [LegacyTail legacyTarget]\<rparr>)"

definition runLiveQuery :: "Collaborators \<Rightarrow> LokiDatasource \<Rightarrow> LokiQuery \<Rightarrow> DataQueryRequest \<Rightarrow> DsState
    \<Rightarrow> DataQueryResponse obs \<times> DsState" where
  "runLiveQuery D ds target options s =
     (let liveTarget = createLiveTarget D ds target options
      in case getVersion D ds s of
           (settled, s1) \<Rightarrow>
             (case mergeMap
                     (\<lambda>v. if v = ''v1'' then streams_getStream D liveTarget
                          else streams_getLegacyStream D (createLegacyLiveTarget D ds target options))
                     (from_promise settled) s1 of
                (batches, s2) \<Rightarrow>
                  (map_obs
                     (\<lambda>d. Inr \<lparr>data = d, key = Some (''loki-'' @ t_refId liveTarget),
                               state = Some Streaming\<rparr>)
                     batches,
                   s2)))"

text \<open>The object \<^verbatim>\<open>query\<close> that \<^verbatim>\<open>runLegacyQuery\<close> builds.\<close>

definition legacyQuery :: "Collaborators \<Rightarrow> LokiDatasource \<Rightarrow> LokiQuery \<Rightarrow> DataQueryRequest
    \<Rightarrow> LokiLegacyQueryRequest" where
  "legacyQuery D ds target options =
     (let rng = (case timeRange options of
                   Some r \<Rightarrow> (Some (getTime D (range_from r) False), Some (getTime D (range_to r) True))
                 | None \<Rightarrow> (None, None));
          parsed = parseQuery D (expr target)
      in \<lparr>q_direction = q_direction DEFAULT_QUERY_PARAMS,
          q_limit = lineLimit (maxDataPoints options) (maxLines ds),
          q_regexp = p_regexp parsed,
          q_query = p_query parsed,
          l_start = fst rng,
          l_end = snd rng,
          l_refId = refId target\<rparr>)"

definition runLegacyQuery :: "Collaborators \<Rightarrow> LokiDatasource \<Rightarrow> LokiQuery \<Rightarrow> DataQueryRequest \<Rightarrow> DsState
    \<Rightarrow> DataQueryResponse obs \<times> DsState" where
  "runLegacyQuery D ds target options s =
     (if liveStreaming target then runLiveQuery D ds target options s
      else
        (let query = legacyQuery D ds target options
         in case request D ds LEGACY_QUERY_ENDPOINT (Some (LegacyParams query)) s of
              (settled, s1) \<Rightarrow>
                (map_obs
                   (\<lambda>response.
                      Inr \<lparr>data = lokiLegacyStreamsToDataframes D (payload response) query (maxLines ds)
                                    (jsonData ds) (reverse options),
                           key = Some (refId target @ ''_log''),
                           state = None\<rparr>)
                   (filter_obs (\<lambda>response. \<not> cancelled response)
                      (catchError (\<lambda>err. throwUnless D err (cancelled err) target)
                         (from_promise settled))),
                 s1)))"

text \<open>The object \<^verbatim>\<open>query\<close> that \<^verbatim>\<open>runInstantQuery\<close> builds from \<^verbatim>\<open>timeNs\<close>.\<close>

definition instantQuery :: "Collaborators \<Rightarrow> LokiDatasource \<Rightarrow> LokiQuery \<Rightarrow> DataQueryRequest \<Rightarrow> int
    \<Rightarrow> LokiInstantQueryRequest" where
  "instantQuery D ds target options timeNs =
     \<lparr>i_query = p_query (parseQuery D (expr target)),
      i_time = timeNs + (1000000000 - js_rem timeNs 1000000000),
      i_limit = lineLimit (maxDataPoints options) (maxLines ds)\<rparr>"

text \<open>
  \<^verbatim>\<open>runInstantQuery\<close>. \<^verbatim>\<open>DataQueryRequest\<close> declares \<^verbatim>\<open>range\<close> as required; without it
  the read of \<^verbatim>\<open>options.range.to\<close> throws before any request is made. A response whose
  \<^verbatim>\<open>data\<close> has no \<^verbatim>\<open>data\<close> property makes the projection throw as well.
\<close>

definition runInstantQuery :: "Collaborators \<Rightarrow> LokiDatasource \<Rightarrow> LokiQuery \<Rightarrow> DataQueryRequest \<Rightarrow> nat
    \<Rightarrow> DsState \<Rightarrow> DataQueryResponse obs \<times> DsState" where
  "runInstantQuery D ds target options responseListLength s =
     (case timeRange options of
        None \<Rightarrow> (Obs [] (Failed TypeError), s)
      | Some r \<Rightarrow>
          (let timeNs = getTime D (range_to r) True;
               query = instantQuery D ds target options timeNs
           in case request D ds INSTANT_QUERY_ENDPOINT (Some (InstantParams query)) s of
                (settled, s1) \<Rightarrow>
                  (map_obs
                     (\<lambda>response.
                        case payload response of
                          LokiData resultType result \<Rightarrow>
                            if resultType = LokiResultType_Stream
                            then Inl (JsError
                              ''Metrics mode does not support logs. Use an aggregation or switch to Logs mode.'')
                            else Inr \<lparr>data = [lokiResultsToTableModel D result responseListLength
                                                (refId target) True],
                                      key = Some (refId target @ ''_instant''),
                                      state = None\<rparr>
                        | _ \<Rightarrow> Inl TypeError)
                     (filter_obs (\<lambda>response. \<not> cancelled response)
                        (catchError (\<lambda>err. throwUnless D err (cancelled err) target)
                           (from_promise settled))),
                   s1)))"

definition createRangeQuery :: "Collaborators \<Rightarrow> LokiDatasource \<Rightarrow> LokiQuery \<Rightarrow> DataQueryRequest
    \<Rightarrow> LokiRangeQueryRequest" where
  "createRangeQuery D ds target options =
     (let query = p_query (parseQuery D (expr target));
          rng =
            (case (timeRange options, intervalMs options) of
               (Some r, Some i) \<Rightarrow>
                 if i \<noteq> 0 then
                   (let startNs = getTime D (range_from r) False;
                        endNs = getTime D (range_to r) True;
                        rangeMs = \<lceil>(of_int (endNs - startNs) :: real) / 1000000\<rceil>;
                        step = \<lceil>adjustInterval i (of_int rangeMs) / 1000\<rceil>;
                        aligned = alignedTimes startNs endNs
                    in (Some (fst aligned), Some (snd aligned), Some step))
                 else (None, None, None)
             | _ \<Rightarrow> (None, None, None))
      in \<lparr>q_direction = q_direction DEFAULT_QUERY_PARAMS,
          q_limit = lineLimit (maxDataPoints options) (maxLines ds),
          q_regexp = q_regexp DEFAULT_QUERY_PARAMS,
          q_query = query,
          r_start = fst rng,
          r_end = fst (snd rng),
          r_step = snd (snd rng)\<rparr>)"

definition runRangeQueryWithFallback :: "Collaborators \<Rightarrow> LokiDatasource \<Rightarrow> LokiQuery \<Rightarrow> DataQueryRequest
    \<Rightarrow> nat \<Rightarrow> DsState \<Rightarrow> DataQueryResponse obs \<times> DsState" where
  "runRangeQueryWithFallback D ds target options responseListLength s =
     (if liveStreaming target then runLiveQuery D ds target options s
      else
        (let query = createRangeQuery D ds target options
         in case request D ds RANGE_QUERY_ENDPOINT (Some (RangeParams query)) s of
              (settled, s1) \<Rightarrow>
                switchMap
                  (\<lambda>response st.
                     if status response = Some 404 then runLegacyQuery D ds target options st
                     else (processRangeQueryResponse D (payload response) target query
                             responseListLength (maxLines ds) (jsonData ds) (reverse options), st))
                  (filter_obs (\<lambda>response. \<not> cancelled response)
                     (catchError
                        (\<lambda>err. throwUnless D err (cancelled err \<or> status err = Some 404) target)
                        (from_promise settled)))
                  s1))"

subsection \<open>Dispatch\<close>

text \<open>
  A sub-query between its call and the settling of its responses. \<open>settle\<close> is what the
  subscribed observable does once its response has arrived: what it emits, and what it
  does to the datasource then (a fallback request, a live stream, the write of
  \<^verbatim>\<open>version\<close>). \<open>abandon\<close> is what remains of that when the observable has been unsubscribed
  before the response arrived: the handlers attached to the promise of \<^verbatim>\<open>getVersion\<close> still
  run.
\<close>

record Pending =
  settle :: "DsState \<Rightarrow> DataQueryResponse obs \<times> DsState"
  abandon :: "DsState \<Rightarrow> DsState"

text \<open>
  The call of \<^verbatim>\<open>getVersion\<close>: it reads \<^verbatim>\<open>this.version\<close> and, with none cached, sends the
  probe at once. The handlers of \<^verbatim>\<open>then\<close> and \<^verbatim>\<open>catch\<close>, which write \<^verbatim>\<open>version\<close>, run when
  the probe has settled: they are the function returned.
\<close>

definition start_getVersion :: "Collaborators \<Rightarrow> LokiDatasource \<Rightarrow> DsState
    \<Rightarrow> (DsState \<Rightarrow> string promise \<times> DsState) \<times> DsState" where
  "start_getVersion D ds s =
     (case cachedVersion s of
        Some v \<Rightarrow> (\<lambda>st. (Resolved v, st), s)
      | None \<Rightarrow>
          (case request D ds RANGE_QUERY_ENDPOINT None s of
             (Resolved r, s1) \<Rightarrow> (\<lambda>st. (Resolved ''v1'', st\<lparr>version := Some ''v1''\<rparr>), s1)
           | (Rejected err, s1) \<Rightarrow>
               (let v' = (if status err \<noteq> Some 404 then ''v1'' else ''v0'')
                in (\<lambda>st. (Resolved v', st\<lparr>version := Some v'\<rparr>), s1))))"

text \<open>
  The call of \<^verbatim>\<open>runLiveQuery\<close>: \<^verbatim>\<open>this.getVersion()\<close> is called at once; the stream is
  asked of \<^verbatim>\<open>LiveStreams\<close> when the version has settled.
\<close>

definition start_runLiveQuery :: "Collaborators \<Rightarrow> LokiDatasource \<Rightarrow> LokiQuery \<Rightarrow> DataQueryRequest
    \<Rightarrow> DsState \<Rightarrow> Pending \<times> DsState" where
  "start_runLiveQuery D ds target options s =
     (let liveTarget = createLiveTarget D ds target options
      in case start_getVersion D ds s of
           (versionSettles, s1) \<Rightarrow>
             (\<lparr>settle =
                 (\<lambda>st. case versionSettles st of
                    (settled, st1) \<Rightarrow>
                      (case mergeMap
                              (\<lambda>v. if v = ''v1'' then streams_getStream D liveTarget
                                   else streams_getLegacyStream D
                                          (createLegacyLiveTarget D ds target options))
                              (from_promise settled) st1 of
                         (batches, st2) \<Rightarrow>
                           (map_obs
                              (\<lambda>d. Inr \<lparr>data = d, key = Some (''loki-'' @ t_refId liveTarget),
                                        state = Some Streaming\<rparr>)
                              batches,
                            st2))),
               abandon = (\<lambda>st. snd (versionSettles st))\<rparr>,
              s1))"

text \<open>
  The call of \<^verbatim>\<open>runInstantQuery\<close>: the instant request is sent at once; the operators of
  the pipe act on its response and do nothing to the datasource.
\<close>

definition start_runInstantQuery :: "Collaborators \<Rightarrow> LokiDatasource \<Rightarrow> LokiQuery \<Rightarrow> DataQueryRequest
    \<Rightarrow> nat \<Rightarrow> DsState \<Rightarrow> Pending \<times> DsState" where
  "start_runInstantQuery D ds target options responseListLength s =
     (case timeRange options of
        None \<Rightarrow> (\<lparr>settle = (\<lambda>st. (Obs [] (Failed TypeError), st)), abandon = (\<lambda>st. st)\<rparr>, s)
      | Some r \<Rightarrow>
          (let timeNs = getTime D (range_to r) True;
               query = instantQuery D ds target options timeNs
           in case request D ds INSTANT_QUERY_ENDPOINT (Some (InstantParams query)) s of
                (settled, s1) \<Rightarrow>
                  (\<lparr>settle =
                      (\<lambda>st.
                         (map_obs
                            (\<lambda>response.
                               case payload response of
                                 LokiData resultType result \<Rightarrow>
                                   if resultType = LokiResultType_Stream
                                   then Inl (JsError
                                     ''Metrics mode does not support logs. Use an aggregation or switch to Logs mode.'')
                                   else Inr \<lparr>data = [lokiResultsToTableModel D result
                                                        responseListLength (refId target) True],
                                             key = Some (refId target @ ''_instant''),
                                             state = None\<rparr>
                               | _ \<Rightarrow> Inl TypeError)
                            (filter_obs (\<lambda>response. \<not> cancelled response)
                               (catchError (\<lambda>err. throwUnless D err (cancelled err) target)
                                  (from_promise settled))),
                          st)),
                    abandon = (\<lambda>st. st)\<rparr>,
                   s1)))"

text \<open>
  The call of \<^verbatim>\<open>runRangeQueryWithFallback\<close>: for a live target the call of
  \<^verbatim>\<open>runLiveQuery\<close>; otherwise the range request is sent at once, and the legacy query of
  the fallback runs when a 404 has arrived.
\<close>

definition start_runRangeQueryWithFallback :: "Collaborators \<Rightarrow> LokiDatasource \<Rightarrow> LokiQuery
    \<Rightarrow> DataQueryRequest \<Rightarrow> nat \<Rightarrow> DsState \<Rightarrow> Pending \<times> DsState" where
  "start_runRangeQueryWithFallback D ds target options responseListLength s =
     (if liveStreaming target then start_runLiveQuery D ds target options s
      else
        (let query = createRangeQuery D ds target options
         in case request D ds RANGE_QUERY_ENDPOINT (Some (RangeParams query)) s of
              (settled, s1) \<Rightarrow>
                (\<lparr>settle =
                    switchMap
                      (\<lambda>response st.
                         if status response = Some 404 then runLegacyQuery D ds target options st
                         else (processRangeQueryResponse D (payload response) target query
                                 responseListLength (maxLines ds) (jsonData ds) (reverse options),
                               st))
                      (filter_obs (\<lambda>response. \<not> cancelled response)
                         (catchError
                            (\<lambda>err. throwUnless D err (cancelled err \<or> status err = Some 404) target)
                            (from_promise settled))),
                  abandon = (\<lambda>st. st)\<rparr>,
                 s1)))"

text \<open>
  The loop that fills \<^verbatim>\<open>subQueries\<close>: every sub-query is called, in the order of the
  array, before any response has settled.
\<close>

fun build :: "(DsState \<Rightarrow> Pending \<times> DsState) list \<Rightarrow> DsState \<Rightarrow> Pending list \<times> DsState" where
  "build [] s = ([], s)"
| "build (q # qs) s =
     (case q s of
        (p, s1) \<Rightarrow> (case build qs s1 of (ps, s2) \<Rightarrow> (p # ps, s2)))"

text \<open>
  \<^verbatim>\<open>merge(...subQueries)\<close>, with the responses settling in the order of the array: the
  values of the sub-queries, up to the first error. The error unsubscribes the sub-queries
  that have not settled yet.
\<close>

fun merge :: "Pending list \<Rightarrow> DsState \<Rightarrow> DataQueryResponse obs \<times> DsState" where
  "merge [] s = (Obs [] Completed, s)"
| "merge (p # ps) s =
     (case settle p s of
        (Obs xs lokiSpecialRegexEscape_example, s1) \<Rightarrow>
          (case lokiSpecialRegexEscape_example of
             Failed thrown \<Rightarrow> (Obs xs (Failed thrown), fold abandon ps s1)
           | _ \<Rightarrow>
             (case merge ps s1 of
                (Obs ys e2, s2) \<Rightarrow> (Obs (xs @ ys) (join_ending lokiSpecialRegexEscape_example e2), s2))))"

text \<open>
  \<^verbatim>\<open>query\<close>, subscribed. The targets are filtered and interpolated; \<^verbatim>\<open>subQueries\<close> is
  filled by calling \<^verbatim>\<open>runInstantQuery\<close> and \<^verbatim>\<open>runRangeQueryWithFallback\<close> for every target
  in one loop, and merged. Outside Metrics mode the \<^verbatim>\<open>map\<close> piped onto a sub-query
  checks each of its responses when it arrives.
\<close>

definition query :: "Collaborators \<Rightarrow> LokiDatasource \<Rightarrow> DataQueryRequest \<Rightarrow> DsState
    \<Rightarrow> DataQueryResponse obs \<times> DsState" where
  "query D ds options s =
     (let filteredTargets =
            map (\<lambda>target. target\<lparr>expr := templateSrv_replace D (expr target)\<rparr>)
              (filter (\<lambda>target. expr target \<noteq> [] \<and> \<not> hide target) (targets options));
          subQueries =
            (if exploreMode options = Some Metrics then
               concat (map (\<lambda>target.
                  [start_runInstantQuery D ds target options (length filteredTargets),
                   start_runRangeQueryWithFallback D ds target options (length filteredTargets)])
                 filteredTargets)
             else
               map (\<lambda>target st.
                  case start_runRangeQueryWithFallback D ds target options (length filteredTargets) st of
                    (pending, st') \<Rightarrow>
                      (pending\<lparr>settle :=
                         (\<lambda>u. case settle pending u of
                            (responses, u') \<Rightarrow>
                              (map_obs
                                 (\<lambda>dataQueryResponse.
                                    if exploreMode options = Some Logs
                                       \<and> list_ex isTimeSeries (data dataQueryResponse)
                                    then Inl (JsError
                                      ''Logs mode does not support queries that return time series data. Please perform a logs query or switch to Metrics mode.'')
                                    else Inr dataQueryResponse)
                                 responses,
                               u'))\<rparr>,
                       st'))
                 filteredTargets)
      in if List.null subQueries
         then (of_obs \<lparr>data = [], key = None, state = Some Done\<rparr>, s)
         else (case build subQueries s of (pendings, s1) \<Rightarrow> merge pendings s1))"

text \<open>A sub-query whose settling and whose abandoning leave a cached version \<open>v\<close> as it is.\<close>

definition keepsVersion :: "string \<Rightarrow> Pending \<Rightarrow> bool" where
  "keepsVersion v p =
     (\<forall>st. cachedVersion st = Some v \<longrightarrow>
        cachedVersion (snd (settle p st)) = Some v \<and> cachedVersion (abandon p st) = Some v)"

subsection \<open>Escaping of interpolated values\<close>

text \<open>
  \<^verbatim>\<open>lokiRegularEscape\<close> and \<^verbatim>\<open>lokiSpecialRegexEscape\<close> on a string (any other value is
  returned as it is). Each \<^verbatim>\<open>replace\<close> has a global pattern that matches one character, so
  it rewrites the string character by character: a quote becomes two backslashes and the
  quote, a backslash becomes four backslashes, and one of \<^verbatim>\<open>$^*{}[]+?.()|\<close> becomes two
  backslashes and the character.
\<close>

definition lokiRegularEscape :: "string \<Rightarrow> string" where
  "lokiRegularEscape v =
     concat (map (\<lambda>c. if c = CHR 0x27 then [CHR 0x5C, CHR 0x5C, CHR 0x27] else [c]) v)"

definition lokiSpecialRegexEscape :: "string \<Rightarrow> string" where
  "lokiSpecialRegexEscape v =
     lokiRegularEscape
       (concat (map (\<lambda>c. if c \<in> set ''$^*{}[]+?.()|'' then [CHR 0x5C, CHR 0x5C, c] else [c])
          (concat (map (\<lambda>c. if c = CHR 0x5C then [CHR 0x5C, CHR 0x5C, CHR 0x5C, CHR 0x5C] else [c])
             v))))"

subsection \<open>Concrete collaborators and inputs\<close>

text \<open>
  A backend that knows only the legacy API: it answers the legacy query endpoint and
  rejects every other request with status 404.
\<close>

definition notFound :: HttpResult where
  "notFound =
     \<lparr>status = Some 404, statusText = Some ''Not Found'', cancelled = False, message = None,
      payload = TextData ''404 page not found''\<rparr>"

definition legacyAnswer :: HttpResult where
  "legacyAnswer =
     \<lparr>status = Some 200, statusText = Some ''OK'', cancelled = False, message = None,
      payload = LegacyData ''legacy-streams''\<rparr>"

definition legacyOnlyBackend :: "Request \<Rightarrow> HttpResult promise" where
  "legacyOnlyBackend req =
     (if url req = ''http://loki/api/prom/query'' then Resolved legacyAnswer else Rejected notFound)"

text \<open>A backend that answers every request with a modern response of a given result type.\<close>

definition modernAnswer :: "string \<Rightarrow> HttpResult" where
  "modernAnswer resultType =
     \<lparr>status = Some 200, statusText = Some ''OK'', cancelled = False, message = None,
      payload = LokiData resultType ''modern-result''\<rparr>"

definition modernBackend :: "string \<Rightarrow> Request \<Rightarrow> HttpResult promise" where
  "modernBackend resultType req = Resolved (modernAnswer resultType)"

definition payloadText :: "Payload \<Rightarrow> json" where
  "payloadText p =
     (case p of
        NoData \<Rightarrow> []
      | TextData d \<Rightarrow> d
      | ErrorData e \<Rightarrow> (case e of Some x \<Rightarrow> x | None \<Rightarrow> [])
      | LokiData rt res \<Rightarrow> res
      | LegacyData streams \<Rightarrow> streams)"

definition exampleCollaborators :: "(Request \<Rightarrow> HttpResult promise) \<Rightarrow> Collaborators" where
  "exampleCollaborators backend =
     \<lparr>datasourceRequest = backend,
      templateSrv_replace = (\<lambda>e. e),
      parseQuery = (\<lambda>e. \<lparr>p_query = e, p_regexp = []\<rparr>),
      dateMath_parse = (\<lambda>str roundUp. 0),
      encodeURIComponent = (\<lambda>c. c),
      convertToWebSocketUrl = (\<lambda>u. ''ws:'' @ u),
      safeStringifyValue = (\<lambda>j. j),
      lokiResultsToTableModel =
        (\<lambda>result n ref meta. \<lparr>datapoints = None, content = ''table:'' @ result\<rparr>),
      processRangeQueryResponse =
        (\<lambda>p target q n lines js rev.
           of_obs \<lparr>data = [\<lparr>datapoints = None, content = ''range:'' @ payloadText p\<rparr>],
                   key = Some (refId target @ ''_log''), state = None\<rparr>),
      lokiLegacyStreamsToDataframes =
        (\<lambda>p q lines js rev. [\<lparr>datapoints = None, content = ''legacy:'' @ payloadText p\<rparr>]),
      getStream = (\<lambda>t. Obs [[\<lparr>datapoints = None, content = ''tail''\<rparr>]] Active),
      getLegacyStream = (\<lambda>t. Obs [[\<lparr>datapoints = None, content = ''legacy-tail''\<rparr>]] Active)\<rparr>"

definition exampleDatasource :: LokiDatasource where
  "exampleDatasource = \<lparr>baseUrl = ''http://loki'', jsonData = [], maxLines = configuredMaxLines None\<rparr>"

definition initialState :: DsState where
  "initialState = \<lparr>version = None, requests = [], subscriptions = []\<rparr>"

definition exampleTarget :: LokiQuery where
  "exampleTarget = \<lparr>expr = ''{job=app}'', refId = ''A'', liveStreaming = False, hide = False\<rparr>"

definition liveTarget :: LokiQuery where
  "liveTarget = \<lparr>expr = ''{job=app}'', refId = ''A'', liveStreaming = True, hide = False\<rparr>"

definition exampleOptions :: "LokiQuery list \<Rightarrow> ExploreMode option \<Rightarrow> int option \<Rightarrow> DataQueryRequest" where
  "exampleOptions ts mode points =
     \<lparr>targets = ts,
      timeRange = Some \<lparr>range_from = DateTime 1600000000000, range_to = DateTime 1600000060500\<rparr>,
      intervalMs = Some 1000,
      maxDataPoints = points,
      reverse = False,
      exploreMode = mode\<rparr>"

section \<open>Properties\<close>

lemmas example_defs = exampleCollaborators_def exampleDatasource_def initialState_def exampleTarget_def
  liveTarget_def exampleOptions_def legacyOnlyBackend_def modernBackend_def modernAnswer_def
  notFound_def legacyAnswer_def payloadText_def configuredMaxLines_def DEFAULT_MAX_LINES_def

subsection \<open>The truncating remainder\<close>

lemma js_rem_nonneg: "0 \<le> a \<Longrightarrow> js_rem a b = a mod \<bar>b\<bar>"
  by (cases "a = 0") (simp_all add: js_rem_def)

lemma js_rem_neg: "a < 0 \<Longrightarrow> js_rem a b = - ((- a) mod \<bar>b\<bar>)"
  by (simp add: js_rem_def)

lemma js_rem_dvd: "b dvd (a - js_rem a b)"
proof (cases "0 \<le> a")
  case True
  then have "a - js_rem a b = \<bar>b\<bar> * (a div \<bar>b\<bar>)" by (simp add: js_rem_nonneg minus_mod_eq_mult_div)
  then show ?thesis by simp
next
  case False
  then have "a - js_rem a b = - (\<bar>b\<bar> * ((- a) div \<bar>b\<bar>))" 
    by (simp add: js_rem_neg minus_mod_eq_mult_div [symmetric])
  then show ?thesis by simp
qed

lemma js_rem_bound: "b \<noteq> 0 \<Longrightarrow> \<bar>js_rem a b\<bar> < \<bar>b\<bar>"
  by (cases "0 \<le> a") (simp_all add: js_rem_nonneg js_rem_neg)

lemma js_rem_ge0: "0 \<le> a \<Longrightarrow> 0 \<le> js_rem a b"
  by (cases "b = 0") (simp_all add: js_rem_nonneg)

subsection \<open>Requests and the cached version\<close>

lemma request_eq:
  "request D ds apiUrl dat s =
     (datasourceRequest D \<lparr>url = baseUrl ds @ apiUrl, params = dat\<rparr>,
      s\<lparr>requests := requests s @ [\<lparr>url = baseUrl ds @ apiUrl, params = dat\<rparr>]\<rparr>)"
  by (simp add: request_def Let_def)

lemma cachedVersion_requests [simp]: "cachedVersion (s\<lparr>requests := rs\<rparr>) = cachedVersion s"
  by (simp add: cachedVersion_def)

lemma cachedVersion_subscriptions [simp]: "cachedVersion (s\<lparr>subscriptions := ss\<rparr>) = cachedVersion s"
  by (simp add: cachedVersion_def)

lemma getVersion_cached:
  "cachedVersion s = Some v \<Longrightarrow> getVersion D ds s = (Resolved v, s)"
  by (simp add: getVersion_def)

lemma getVersion_probe:
  assumes "cachedVersion s = None"
  shows "\<exists>v. (v = ''v0'' \<or> v = ''v1'')
     \<and> (v = ''v0'') = (\<exists>err. datasourceRequest D \<lparr>url = baseUrl ds @ RANGE_QUERY_ENDPOINT, params = None\<rparr> = Rejected err
                          \<and> status err = Some 404)
     \<and> getVersion D ds s =
         (Resolved v,
          s\<lparr>requests := requests s @ [\<lparr>url = baseUrl ds @ RANGE_QUERY_ENDPOINT, params = None\<rparr>],
            version := Some v\<rparr>)"
proof (cases "datasourceRequest D \<lparr>url = baseUrl ds @ RANGE_QUERY_ENDPOINT, params = None\<rparr>")
  case (Resolved r)
  with assms show ?thesis by (simp add: getVersion_def request_eq)
next
  case (Rejected err)
  with assms show ?thesis by (simp add: getVersion_def request_eq Let_def)
qed

lemma getVersion_settles:
  "\<exists>v. v \<noteq> [] \<and> fst (getVersion D ds s) = Resolved v \<and> version (snd (getVersion D ds s)) = Some v
      \<and> cachedVersion (snd (getVersion D ds s)) = Some v"
proof (cases "cachedVersion s")
  case None
  from getVersion_probe [OF None, of D ds] show ?thesis
    by (auto simp: cachedVersion_def)
next
  case (Some v)
  then show ?thesis
    by (auto simp: getVersion_cached cachedVersion_def split: option.splits if_splits)
qed

subsection \<open>The state after each operation\<close>

lemma flatten_emitted_single: "flatten_emitted f [x] Completed s = f x s"
  by (simp add: join_ending_def split: prod.splits obs.splits ending.splits)

lemma runLiveQuery_state:
  assumes "getVersion D ds s = (Resolved v, s1)"
  shows "snd (runLiveQuery D ds target options s) =
     s1\<lparr>subscriptions := subscriptions s1 @
          [if v = ''v1'' then ModernTail (createLiveTarget D ds target options)
           else LegacyTail (createLegacyLiveTarget D ds target options)]\<rparr>"
  using assms
  by (simp add: runLiveQuery_def mergeMap_def from_promise_def streams_getStream_def
      streams_getLegacyStream_def Let_def split: prod.splits obs.splits ending.splits)

lemma runLiveQuery_cached:
  assumes "cachedVersion s = Some v"
  shows "cachedVersion (snd (runLiveQuery D ds target options s)) = Some v"
    and "requests (snd (runLiveQuery D ds target options s)) = requests s"
  using assms runLiveQuery_state [OF getVersion_cached [OF assms]]
  by simp_all

lemma runLiveQuery_probing:
  assumes "cachedVersion s = None"
  shows "\<exists>v. cachedVersion (snd (runLiveQuery D ds target options s)) = Some v"
    and "requests (snd (runLiveQuery D ds target options s)) =
           requests s @ [\<lparr>url = baseUrl ds @ RANGE_QUERY_ENDPOINT, params = None\<rparr>]"
proof -
  from getVersion_probe [OF assms, of D ds] obtain v where
    v: "v = ''v0'' \<or> v = ''v1''" and
    g: "getVersion D ds s =
         (Resolved v,
          s\<lparr>requests := requests s @ [\<lparr>url = baseUrl ds @ RANGE_QUERY_ENDPOINT, params = None\<rparr>],
            version := Some v\<rparr>)"
    by blast
  from v show "\<exists>v. cachedVersion (snd (runLiveQuery D ds target options s)) = Some v"
    by (auto simp: runLiveQuery_state [OF g] cachedVersion_def)
  show "requests (snd (runLiveQuery D ds target options s)) =
           requests s @ [\<lparr>url = baseUrl ds @ RANGE_QUERY_ENDPOINT, params = None\<rparr>]"
    by (simp add: runLiveQuery_state [OF g])
qed

lemma runLiveQuery_requests:
  "requests (snd (runLiveQuery D ds target options s)) =
     requests s @ (if cachedVersion s = None
                   then [\<lparr>url = baseUrl ds @ RANGE_QUERY_ENDPOINT, params = None\<rparr>] else [])"
  by (cases "cachedVersion s") (simp_all add: runLiveQuery_probing runLiveQuery_cached)

lemma map_emitted_total: "map_emitted (\<lambda>x. Inr (g x)) xs e = Obs (map g xs) e"
  by (induction xs) simp_all

lemma runLiveQuery_result:
  assumes "getVersion D ds s = (Resolved v, s1)"
  shows "fst (runLiveQuery D ds target options s) =
     Obs (map (\<lambda>d. \<lparr>data = d, key = Some (''loki-'' @ refId target), state = Some Streaming\<rparr>)
            (emitted (if v = ''v1'' then getStream D (createLiveTarget D ds target options)
                      else getLegacyStream D (createLegacyLiveTarget D ds target options))))
         (ending (if v = ''v1'' then getStream D (createLiveTarget D ds target options)
                  else getLegacyStream D (createLegacyLiveTarget D ds target options)))"
proof -
  have key: "t_refId (createLiveTarget D ds target options) = refId target"
    by (simp add: createLiveTarget_def Let_def)
  have ending: "join_ending e Completed = e" if "\<forall>x. e \<noteq> Failed x" for e
    using that by (cases e) (simp_all add: join_ending_def)
  show ?thesis
    using assms
    by (cases "getStream D (createLiveTarget D ds target options)";
        cases "getLegacyStream D (createLegacyLiveTarget D ds target options)")
       (auto simp: runLiveQuery_def mergeMap_def from_promise_def streams_getStream_def
          streams_getLegacyStream_def Let_def map_obs_def map_emitted_total key join_ending_def
          split: ending.splits)
qed

lemma runLiveQuery_streams:
  "\<exists>sub batches.
      subscriptions (snd (runLiveQuery D ds target options s)) = subscriptions s @ [sub]
    \<and> (sub = ModernTail (createLiveTarget D ds target options)
          \<and> batches = getStream D (createLiveTarget D ds target options)
        \<or> sub = LegacyTail (createLegacyLiveTarget D ds target options)
          \<and> batches = getLegacyStream D (createLegacyLiveTarget D ds target options))
    \<and> fst (runLiveQuery D ds target options s) =
         Obs (map (\<lambda>d. \<lparr>data = d, key = Some (''loki-'' @ refId target), state = Some Streaming\<rparr>)
                (emitted batches))
             (ending batches)"
proof (cases "cachedVersion s")
  case None
  from getVersion_probe [OF None, of D ds] obtain w where
    g: "getVersion D ds s =
         (Resolved w,
          s\<lparr>requests := requests s @ [\<lparr>url = baseUrl ds @ RANGE_QUERY_ENDPOINT, params = None\<rparr>],
            version := Some w\<rparr>)"
    by blast
  show ?thesis
    by (cases "w = ''v1''") (simp_all add: runLiveQuery_state [OF g] runLiveQuery_result [OF g])
next
  case (Some w)
  note g = getVersion_cached [OF Some, of D ds]
  show ?thesis
    by (cases "w = ''v1''") (simp_all add: runLiveQuery_state [OF g] runLiveQuery_result [OF g])
qed

lemma flatten_emitted_cached:
  assumes "\<And>x st. cachedVersion st = Some v \<Longrightarrow> cachedVersion (snd (f x st)) = Some v"
      and "cachedVersion s = Some v"
  shows "cachedVersion (snd (flatten_emitted f xs e s)) = Some v"
  using assms(2)
proof (induction xs arbitrary: s)
  case Nil
  then show ?case by simp
next
  case (Cons x xs)
  from assms(1) [OF Cons.prems, of x] have "cachedVersion (snd (f x s)) = Some v" .
  with Cons.IH [of "snd (f x s)"] show ?case
    by (auto split: prod.splits obs.splits ending.splits)
qed

lemma runLegacyQuery_cached:
  assumes "cachedVersion s = Some v"
  shows "cachedVersion (snd (runLegacyQuery D ds target options s)) = Some v"
  using assms by (simp add: runLegacyQuery_def runLiveQuery_cached request_eq Let_def)

lemma runInstantQuery_cached:
  assumes "cachedVersion s = Some v"
  shows "cachedVersion (snd (runInstantQuery D ds target options n s)) = Some v"
  using assms by (simp add: runInstantQuery_def request_eq Let_def split: option.splits)

lemma runRangeQueryWithFallback_cached:
  assumes "cachedVersion s = Some v"
  shows "cachedVersion (snd (runRangeQueryWithFallback D ds target options n s)) = Some v"
proof (cases "liveStreaming target")
  case True
  with assms show ?thesis by (simp add: runRangeQueryWithFallback_def runLiveQuery_cached)
next
  case False
  then show ?thesis
    unfolding runRangeQueryWithFallback_def switchMap_def request_eq Let_def
    apply simp
    apply (rule flatten_emitted_cached)
     apply (simp add: runLegacyQuery_cached)
    apply (simp add: assms)
    done
qed

subsection \<open>Calls and their settling\<close>

text \<open>
  A method on its own is its call followed by the settling of what the call left pending.
\<close>

lemma start_getVersion_run:
  "getVersion D ds s = (case start_getVersion D ds s of (settles, s1) \<Rightarrow> settles s1)"
  by (simp add: getVersion_def start_getVersion_def request_eq Let_def
      split: option.splits promise.splits)

lemma start_runLiveQuery_run:
  "runLiveQuery D ds target options s =
     (case start_runLiveQuery D ds target options s of (p, s1) \<Rightarrow> settle p s1)"
  by (simp add: runLiveQuery_def start_runLiveQuery_def start_getVersion_run Let_def
      split: prod.splits)

lemma start_runInstantQuery_run:
  "runInstantQuery D ds target options n s =
     (case start_runInstantQuery D ds target options n s of (p, s1) \<Rightarrow> settle p s1)"
  by (simp add: runInstantQuery_def start_runInstantQuery_def Let_def
      split: option.splits prod.splits)

lemma start_runRangeQueryWithFallback_run:
  "runRangeQueryWithFallback D ds target options n s =
     (case start_runRangeQueryWithFallback D ds target options n s of (p, s1) \<Rightarrow> settle p s1)"
  by (simp add: runRangeQueryWithFallback_def start_runRangeQueryWithFallback_def
      start_runLiveQuery_run Let_def split: prod.splits)

text \<open>
  With a version cached, no call sends a probe and nothing that is pending writes the
  version: a dispatch keeps it.
\<close>

lemma start_getVersion_cached:
  "cachedVersion s = Some v \<Longrightarrow> start_getVersion D ds s = (\<lambda>st. (Resolved v, st), s)"
  by (simp add: start_getVersion_def)

lemma start_runLiveQuery_keeps:
  assumes "cachedVersion s = Some v"
  shows "cachedVersion (snd (start_runLiveQuery D ds target options s)) = Some v
     \<and> keepsVersion v (fst (start_runLiveQuery D ds target options s))"
  using assms
  by (simp add: start_runLiveQuery_def start_getVersion_cached keepsVersion_def mergeMap_def
      from_promise_def streams_getStream_def streams_getLegacyStream_def Let_def
      split: prod.splits obs.splits ending.splits)

lemma start_runInstantQuery_keeps:
  assumes "cachedVersion s = Some v"
  shows "cachedVersion (snd (start_runInstantQuery D ds target options n s)) = Some v
     \<and> keepsVersion v (fst (start_runInstantQuery D ds target options n s))"
  using assms
  by (simp add: start_runInstantQuery_def keepsVersion_def request_eq Let_def split: option.splits)

lemma start_runRangeQueryWithFallback_keeps:
  assumes "cachedVersion s = Some v"
  shows "cachedVersion (snd (start_runRangeQueryWithFallback D ds target options n s)) = Some v
     \<and> keepsVersion v (fst (start_runRangeQueryWithFallback D ds target options n s))"
proof (cases "liveStreaming target")
  case True
  with assms show ?thesis
    by (simp add: start_runRangeQueryWithFallback_def start_runLiveQuery_keeps)
next
  case False
  have flat: "cachedVersion (snd (flatten_emitted
          (\<lambda>response st.
             if status response = Some 404 then runLegacyQuery D ds target options st
             else (processRangeQueryResponse D (payload response) target
                     (createRangeQuery D ds target options) n (maxLines ds) (jsonData ds)
                     (reverse options), st))
          xs e st)) = Some v" if "cachedVersion st = Some v" for xs e st
    using _ that by (rule flatten_emitted_cached) (simp add: runLegacyQuery_cached)
  from False assms show ?thesis
    by (simp add: start_runRangeQueryWithFallback_def keepsVersion_def switchMap_def request_eq
        Let_def flat)
qed

lemma build_keeps:
  assumes "\<And>q st. q \<in> set qs \<Longrightarrow> cachedVersion st = Some v \<Longrightarrow>
             cachedVersion (snd (q st)) = Some v \<and> keepsVersion v (fst (q st))"
      and "cachedVersion s = Some v"
  shows "cachedVersion (snd (build qs s)) = Some v \<and> (\<forall>p \<in> set (fst (build qs s)). keepsVersion v p)"
  using assms
proof (induction qs arbitrary: s)
  case Nil
  then show ?case by simp
next
  case (Cons q qs)
  have first: "cachedVersion (snd (q s)) = Some v \<and> keepsVersion v (fst (q s))"
    using Cons.prems by simp
  have rest: "cachedVersion (snd (build qs (snd (q s)))) = Some v
      \<and> (\<forall>p \<in> set (fst (build qs (snd (q s)))). keepsVersion v p)"
    using Cons.IH [of "snd (q s)"] Cons.prems(1) first by simp
  from first rest show ?case
    by (auto split: prod.splits)
qed

lemma fold_abandon_keeps:
  assumes "\<forall>p \<in> set ps. keepsVersion v p" and "cachedVersion s = Some v"
  shows "cachedVersion (fold abandon ps s) = Some v"
  using assms by (induction ps arbitrary: s) (simp_all add: keepsVersion_def)

lemma merge_keeps:
  assumes "\<forall>p \<in> set ps. keepsVersion v p" and "cachedVersion s = Some v"
  shows "cachedVersion (snd (merge ps s)) = Some v"
  using assms
proof (induction ps arbitrary: s)
  case Nil
  then show ?case by simp
next
  case (Cons p ps)
  have settled: "cachedVersion (snd (settle p s)) = Some v"
    using Cons.prems by (simp add: keepsVersion_def)
  have abandoned: "cachedVersion (fold abandon ps (snd (settle p s))) = Some v"
    using Cons.prems settled by (simp add: fold_abandon_keeps)
  have merged: "cachedVersion (snd (merge ps (snd (settle p s)))) = Some v"
    using Cons.IH [of "snd (settle p s)"] Cons.prems settled by simp
  from abandoned merged show ?case
    by (auto split: prod.splits obs.splits ending.splits)
qed

lemma dispatch_keeps:
  assumes "\<And>q st. q \<in> set qs \<Longrightarrow> cachedVersion st = Some v \<Longrightarrow>
             cachedVersion (snd (q st)) = Some v \<and> keepsVersion v (fst (q st))"
      and "cachedVersion s = Some v"
  shows "cachedVersion (snd (case build qs s of (pendings, s1) \<Rightarrow> merge pendings s1)) = Some v"
proof -
  have built: "cachedVersion (snd (build qs s)) = Some v
      \<and> (\<forall>p \<in> set (fst (build qs s)). keepsVersion v p)"
  proof (rule build_keeps)
    fix q st
    assume "q \<in> set qs" "cachedVersion st = Some v"
    then show "cachedVersion (snd (q st)) = Some v \<and> keepsVersion v (fst (q st))"
      by (rule assms(1))
  next
    show "cachedVersion s = Some v" by (rule assms(2))
  qed
  then have "cachedVersion (snd (merge (fst (build qs s)) (snd (build qs s)))) = Some v"
    by (simp add: merge_keeps)
  then show ?thesis by (simp add: case_prod_beta)
qed

lemma checked_keeps:
  assumes "cachedVersion st = Some v"
  shows "cachedVersion (snd (case start_runRangeQueryWithFallback D ds target options n st of
            (pending, st') \<Rightarrow>
              (pending\<lparr>settle :=
                 (\<lambda>u. case settle pending u of (responses, u') \<Rightarrow> (map_obs f responses, u'))\<rparr>,
               st'))) = Some v
     \<and> keepsVersion v (fst (case start_runRangeQueryWithFallback D ds target options n st of
            (pending, st') \<Rightarrow>
              (pending\<lparr>settle :=
                 (\<lambda>u. case settle pending u of (responses, u') \<Rightarrow> (map_obs f responses, u'))\<rparr>,
               st')))"
proof -
  obtain pending st' where
    start: "start_runRangeQueryWithFallback D ds target options n st = (pending, st')"
    by (cases "start_runRangeQueryWithFallback D ds target options n st")
  from start_runRangeQueryWithFallback_keeps [OF assms, of D ds target options n]
  have state: "cachedVersion st' = Some v" and pending: "keepsVersion v pending"
    by (simp_all add: start)
  have passed: "snd (case x of (responses, u') \<Rightarrow> (map_obs f responses, u')) = snd x"
    for x :: "DataQueryResponse obs \<times> DsState"
    by (cases x) simp
  from pending have "keepsVersion v
      (pending\<lparr>settle :=
         (\<lambda>u. case settle pending u of (responses, u') \<Rightarrow> (map_obs f responses, u'))\<rparr>)"
    by (simp add: keepsVersion_def passed)
  with state show ?thesis
    by (simp add: start)
qed

lemma metrics_dispatch_keeps:
  assumes "cachedVersion s = Some v"
  shows "cachedVersion (snd (case build (concat (map (\<lambda>target.
            [start_runInstantQuery D ds target options n,
             start_runRangeQueryWithFallback D ds target options n]) ts)) s of
          (pendings, s1) \<Rightarrow> merge pendings s1)) = Some v"
  using _ assms
  by (rule dispatch_keeps)
     (auto simp: start_runInstantQuery_keeps start_runRangeQueryWithFallback_keeps)

lemma checked_dispatch_keeps:
  assumes "cachedVersion s = Some v"
  shows "cachedVersion (snd (case build (map (\<lambda>target st.
            case start_runRangeQueryWithFallback D ds target options n st of
              (pending, st') \<Rightarrow>
                (pending\<lparr>settle :=
                   (\<lambda>u. case settle pending u of (responses, u') \<Rightarrow> (map_obs f responses, u'))\<rparr>,
                 st')) ts) s of
          (pendings, s1) \<Rightarrow> merge pendings s1)) = Some v"
  using _ assms
proof (rule dispatch_keeps)
  fix q st
  assume "q \<in> set (map (\<lambda>target st.
            case start_runRangeQueryWithFallback D ds target options n st of
              (pending, st') \<Rightarrow>
                (pending\<lparr>settle :=
                   (\<lambda>u. case settle pending u of (responses, u') \<Rightarrow> (map_obs f responses, u'))\<rparr>,
                 st')) ts)"
    and st: "cachedVersion st = Some v"
  then obtain target where
    q: "q = (\<lambda>st. case start_runRangeQueryWithFallback D ds target options n st of
              (pending, st') \<Rightarrow>
                (pending\<lparr>settle :=
                   (\<lambda>u. case settle pending u of (responses, u') \<Rightarrow> (map_obs f responses, u'))\<rparr>,
                 st'))"
    by auto
  show "cachedVersion (snd (q st)) = Some v \<and> keepsVersion v (fst (q st))"
    unfolding q using st by (rule checked_keeps)
qed

lemma query_cached:
  assumes "cachedVersion s = Some v"
  shows "cachedVersion (snd (query D ds options s)) = Some v"
  using assms
  by (simp add: query_def Let_def metrics_dispatch_keeps checked_dispatch_keeps del: map_map)

subsection \<open>Single calls\<close>

lemma runLegacyQuery_resolved:
  assumes "\<not> liveStreaming target"
      and "datasourceRequest D
             \<lparr>url = baseUrl ds @ LEGACY_QUERY_ENDPOINT,
              params = Some (LegacyParams (legacyQuery D ds target options))\<rparr> = Resolved answer"
      and "\<not> cancelled answer"
  shows "fst (runLegacyQuery D ds target options s) =
     Obs [\<lparr>data = lokiLegacyStreamsToDataframes D (payload answer) (legacyQuery D ds target options)
                   (maxLines ds) (jsonData ds) (reverse options),
            key = Some (refId target @ ''_log''),
            state = None\<rparr>] Completed"
  using assms
  by (simp add: runLegacyQuery_def request_eq Let_def from_promise_def catchError_def filter_obs_def
      map_obs_def)

lemma runLegacyQuery_requests:
  assumes "\<not> liveStreaming target"
  shows "requests (snd (runLegacyQuery D ds target options s)) =
     requests s @ [\<lparr>url = baseUrl ds @ LEGACY_QUERY_ENDPOINT,
                    params = Some (LegacyParams (legacyQuery D ds target options))\<rparr>]"
  using assms by (simp add: runLegacyQuery_def request_eq Let_def)

lemma runRangeQueryWithFallback_not_found:
  assumes "\<not> liveStreaming target"
      and "datasourceRequest D
             \<lparr>url = baseUrl ds @ RANGE_QUERY_ENDPOINT,
              params = Some (RangeParams (createRangeQuery D ds target options))\<rparr> = Rejected r
           \<or> datasourceRequest D
             \<lparr>url = baseUrl ds @ RANGE_QUERY_ENDPOINT,
              params = Some (RangeParams (createRangeQuery D ds target options))\<rparr> = Resolved r"
      and "status r = Some 404"
      and "\<not> cancelled r"
  shows "runRangeQueryWithFallback D ds target options n s =
     runLegacyQuery D ds target options
       (s\<lparr>requests := requests s @
            [\<lparr>url = baseUrl ds @ RANGE_QUERY_ENDPOINT,
              params = Some (RangeParams (createRangeQuery D ds target options))\<rparr>]\<rparr>)"
  using assms
  by (auto simp: runRangeQueryWithFallback_def request_eq Let_def switchMap_def from_promise_def
      catchError_def throwUnless_def of_obs_def filter_obs_def flatten_emitted_single
      simp del: flatten_emitted.simps)

subsection \<open>Fallback to the legacy endpoint\<close>

text \<open>
  C1, as stated, fails for a live target. With \<^verbatim>\<open>liveStreaming\<close> set,
  \<^verbatim>\<open>runRangeQueryWithFallback\<close> returns \<^verbatim>\<open>runLiveQuery\<close> at once: against a backend that
  answers the modern range endpoint with status 404 the only request is the version probe,
  no request reaches \<^verbatim>\<open>/api/prom/query\<close>, and the envelope is a batch of the legacy live
  stream.
\<close>

theorem live_target_on_legacy_backend_counterexample:
  "datasourceRequest (exampleCollaborators legacyOnlyBackend)
        \<lparr>url = baseUrl exampleDatasource @ ''/loki/api/v1/query_range'',
         params = Some (RangeParams (createRangeQuery (exampleCollaborators legacyOnlyBackend)
                    exampleDatasource liveTarget (exampleOptions [] None (Some 500))))\<rparr>
       = Rejected notFound
   \<and> status notFound = Some 404 \<and> \<not> cancelled notFound
   \<and> map url (requests (snd (runRangeQueryWithFallback (exampleCollaborators legacyOnlyBackend)
        exampleDatasource liveTarget (exampleOptions [] None (Some 500)) 1 initialState)))
       = [''http://loki/loki/api/v1/query_range'']
   \<and> map params (requests (snd (runRangeQueryWithFallback (exampleCollaborators legacyOnlyBackend)
        exampleDatasource liveTarget (exampleOptions [] None (Some 500)) 1 initialState)))
       = [None]
   \<and> fst (runRangeQueryWithFallback (exampleCollaborators legacyOnlyBackend)
        exampleDatasource liveTarget (exampleOptions [] None (Some 500)) 1 initialState)
       = Obs [\<lparr>data = [\<lparr>datapoints = None, content = ''legacy-tail''\<rparr>],
                key = Some ''loki-A'', state = Some Streaming\<rparr>] Active"
  by (simp add: example_defs runRangeQueryWithFallback_def runLiveQuery_def getVersion_def
      cachedVersion_def request_eq RANGE_QUERY_ENDPOINT_def mergeMap_def from_promise_def
      streams_getStream_def streams_getLegacyStream_def join_ending_def map_obs_def
      createLiveTarget_def createLegacyLiveTarget_def lineLimit_def Let_def)

text \<open>
  C1, amended: for every target whose \<^verbatim>\<open>liveStreaming\<close> flag is not set and every time
  window, if the modern range endpoint answers the range request with status 404 (as a
  rejection or as a response, and not cancelled), \<^verbatim>\<open>runRangeQueryWithFallback\<close> issues
  the modern request and then exactly one request to \<^verbatim>\<open>/api/prom/query\<close>, carrying the
  legacy query, and when the legacy endpoint answers, the one envelope returned is the
  legacy converter applied to the legacy response, keyed \<^verbatim>\<open><refId>_log\<close>; nothing of the
  404 response enters it.
\<close>

theorem fallback_to_legacy_endpoint:
  assumes "\<not> liveStreaming target"
      and "datasourceRequest D
             \<lparr>url = baseUrl ds @ ''/loki/api/v1/query_range'',
              params = Some (RangeParams (createRangeQuery D ds target options))\<rparr> = Rejected r
           \<or> datasourceRequest D
             \<lparr>url = baseUrl ds @ ''/loki/api/v1/query_range'',
              params = Some (RangeParams (createRangeQuery D ds target options))\<rparr> = Resolved r"
      and "status r = Some 404"
      and "\<not> cancelled r"
  shows "requests (snd (runRangeQueryWithFallback D ds target options n s)) =
           requests s @
             [\<lparr>url = baseUrl ds @ ''/loki/api/v1/query_range'',
               params = Some (RangeParams (createRangeQuery D ds target options))\<rparr>,
              \<lparr>url = baseUrl ds @ ''/api/prom/query'',
               params = Some (LegacyParams (legacyQuery D ds target options))\<rparr>]
     \<and> filter (\<lambda>q. url q = baseUrl ds @ ''/api/prom/query'')
          (drop (length (requests s)) (requests (snd (runRangeQueryWithFallback D ds target options n s))))
         = [\<lparr>url = baseUrl ds @ ''/api/prom/query'',
             params = Some (LegacyParams (legacyQuery D ds target options))\<rparr>]
     \<and> (\<forall>answer.
           datasourceRequest D
             \<lparr>url = baseUrl ds @ ''/api/prom/query'',
              params = Some (LegacyParams (legacyQuery D ds target options))\<rparr> = Resolved answer
           \<and> \<not> cancelled answer \<longrightarrow>
           fst (runRangeQueryWithFallback D ds target options n s) =
             Obs [\<lparr>data = lokiLegacyStreamsToDataframes D (payload answer)
                            (legacyQuery D ds target options) (maxLines ds) (jsonData ds)
                            (reverse options),
                    key = Some (refId target @ ''_log''),
                    state = None\<rparr>] Completed)"
proof -
  let ?modern = "\<lparr>url = baseUrl ds @ RANGE_QUERY_ENDPOINT,
                  params = Some (RangeParams (createRangeQuery D ds target options))\<rparr>"
  have run: "runRangeQueryWithFallback D ds target options n s =
     runLegacyQuery D ds target options (s\<lparr>requests := requests s @ [?modern]\<rparr>)"
    using assms by (intro runRangeQueryWithFallback_not_found) (simp_all add: RANGE_QUERY_ENDPOINT_def)
  have reqs: "requests (snd (runRangeQueryWithFallback D ds target options n s)) =
           requests s @
             [\<lparr>url = baseUrl ds @ ''/loki/api/v1/query_range'',
               params = Some (RangeParams (createRangeQuery D ds target options))\<rparr>,
              \<lparr>url = baseUrl ds @ ''/api/prom/query'',
               params = Some (LegacyParams (legacyQuery D ds target options))\<rparr>]"
    using assms(1)
    by (simp add: run runLegacyQuery_requests RANGE_QUERY_ENDPOINT_def LEGACY_QUERY_ENDPOINT_def)
  have one: "filter (\<lambda>q. url q = baseUrl ds @ ''/api/prom/query'')
          (drop (length (requests s)) (requests (snd (runRangeQueryWithFallback D ds target options n s))))
         = [\<lparr>url = baseUrl ds @ ''/api/prom/query'',
             params = Some (LegacyParams (legacyQuery D ds target options))\<rparr>]"
    by (simp add: reqs)
  have derived: "fst (runRangeQueryWithFallback D ds target options n s) =
             Obs [\<lparr>data = lokiLegacyStreamsToDataframes D (payload answer)
                            (legacyQuery D ds target options) (maxLines ds) (jsonData ds)
                            (reverse options),
                    key = Some (refId target @ ''_log''),
                    state = None\<rparr>] Completed"
    if "datasourceRequest D
             \<lparr>url = baseUrl ds @ ''/api/prom/query'',
              params = Some (LegacyParams (legacyQuery D ds target options))\<rparr> = Resolved answer"
       "\<not> cancelled answer" for answer
    unfolding run using assms(1) _ that(2)
    by (rule runLegacyQuery_resolved) (simp add: that(1) LEGACY_QUERY_ENDPOINT_def)
  from reqs one derived show ?thesis by blast
qed

text \<open>The theorem of C1 at the backend that knows only the legacy API.\<close>

theorem fallback_to_legacy_endpoint_witness:
  "\<not> liveStreaming exampleTarget
   \<and> datasourceRequest (exampleCollaborators legacyOnlyBackend)
        \<lparr>url = baseUrl exampleDatasource @ ''/loki/api/v1/query_range'',
         params = Some (RangeParams (createRangeQuery (exampleCollaborators legacyOnlyBackend)
                    exampleDatasource exampleTarget (exampleOptions [] None (Some 500))))\<rparr>
       = Rejected notFound
   \<and> status notFound = Some 404 \<and> \<not> cancelled notFound
   \<and> datasourceRequest (exampleCollaborators legacyOnlyBackend)
        \<lparr>url = baseUrl exampleDatasource @ ''/api/prom/query'',
         params = Some (LegacyParams (legacyQuery (exampleCollaborators legacyOnlyBackend)
                    exampleDatasource exampleTarget (exampleOptions [] None (Some 500))))\<rparr>
       = Resolved legacyAnswer
   \<and> \<not> cancelled legacyAnswer
   \<and> map url (requests (snd (runRangeQueryWithFallback (exampleCollaborators legacyOnlyBackend)
        exampleDatasource exampleTarget (exampleOptions [] None (Some 500)) 1 initialState)))
       = [''http://loki/loki/api/v1/query_range'', ''http://loki/api/prom/query'']
   \<and> fst (runRangeQueryWithFallback (exampleCollaborators legacyOnlyBackend)
        exampleDatasource exampleTarget (exampleOptions [] None (Some 500)) 1 initialState)
       = Obs [\<lparr>data = [\<lparr>datapoints = None, content = ''legacy:legacy-streams''\<rparr>],
                key = Some ''A_log'', state = None\<rparr>] Completed"
proof -
  have target: "\<not> liveStreaming exampleTarget"
    by (simp add: exampleTarget_def)
  have modern: "datasourceRequest (exampleCollaborators legacyOnlyBackend)
        \<lparr>url = baseUrl exampleDatasource @ ''/loki/api/v1/query_range'',
         params = Some (RangeParams (createRangeQuery (exampleCollaborators legacyOnlyBackend)
                    exampleDatasource exampleTarget (exampleOptions [] None (Some 500))))\<rparr>
       = Rejected notFound"
    by (simp add: exampleCollaborators_def legacyOnlyBackend_def exampleDatasource_def)
  have legacy: "datasourceRequest (exampleCollaborators legacyOnlyBackend)
        \<lparr>url = baseUrl exampleDatasource @ ''/api/prom/query'',
         params = Some (LegacyParams (legacyQuery (exampleCollaborators legacyOnlyBackend)
                    exampleDatasource exampleTarget (exampleOptions [] None (Some 500))))\<rparr>
       = Resolved legacyAnswer"
    by (simp add: exampleCollaborators_def legacyOnlyBackend_def exampleDatasource_def)
  have status: "status notFound = Some 404" "\<not> cancelled notFound" "\<not> cancelled legacyAnswer"
    by (simp_all add: notFound_def legacyAnswer_def)
  from fallback_to_legacy_endpoint [OF target disjI1 [OF modern] status(1,2), of 1 initialState]
    target modern legacy status
  show ?thesis
    by (simp add: exampleCollaborators_def exampleDatasource_def initialState_def exampleTarget_def
        legacyAnswer_def payloadText_def)
qed

subsection \<open>Live targets\<close>

text \<open>
  By itself the range execution of a live target is the live-stream subscription:
  \<^verbatim>\<open>runRangeQueryWithFallback\<close> returns \<^verbatim>\<open>runLiveQuery\<close> at once. It sends no query request;
  with no version cached, \<^verbatim>\<open>getVersion\<close> sends its probe first.
\<close>

lemma runRangeQueryWithFallback_live:
  assumes "liveStreaming target"
  shows "runRangeQueryWithFallback D ds target options n s = runLiveQuery D ds target options s"
    and "requests (snd (runRangeQueryWithFallback D ds target options n s))
        = requests s @ (if cachedVersion s = None
                        then [\<lparr>url = baseUrl ds @ RANGE_QUERY_ENDPOINT, params = None\<rparr>]
                        else [])"
  using assms by (simp_all add: runRangeQueryWithFallback_def runLiveQuery_requests)

text \<open>
  In Metrics mode \<^verbatim>\<open>query\<close> starts \<^verbatim>\<open>runInstantQuery\<close> for every target as well, and
  \<^verbatim>\<open>runInstantQuery\<close> does not read the \<^verbatim>\<open>liveStreaming\<close> flag, which
  \<^verbatim>\<open>runRangeQueryWithFallback\<close> and \<^verbatim>\<open>runLegacyQuery\<close> test first. A dispatch of one live
  target in Metrics mode, on a datasource whose version is cached, therefore sends exactly
  one HTTP request: the instant query of the live target.
\<close>

lemma metrics_mode_live_target_requests:
  assumes "exploreMode options = Some Metrics"
      and "targets options = [target]"
      and "liveStreaming target" and "expr target \<noteq> []" and "\<not> hide target"
      and "timeRange options = Some r"
      and "cachedVersion s = Some v"
  shows "requests (snd (query D ds options s)) =
     requests s @
       [\<lparr>url = baseUrl ds @ INSTANT_QUERY_ENDPOINT,
         params = Some (InstantParams
           (instantQuery D ds (target\<lparr>expr := templateSrv_replace D (expr target)\<rparr>) options
              (getTime D (range_to r) True)))\<rparr>]"
proof -
  let ?t = "target\<lparr>expr := templateSrv_replace D (expr target)\<rparr>"
  let ?s1 = "s\<lparr>requests := requests s @
       [\<lparr>url = baseUrl ds @ INSTANT_QUERY_ENDPOINT,
         params = Some (InstantParams (instantQuery D ds ?t options (getTime D (range_to r) True)))\<rparr>]\<rparr>"
  have cached: "cachedVersion ?s1 = Some v"
    using assms(7) by simp
  obtain p where instant: "start_runInstantQuery D ds ?t options 1 s = (p, ?s1)"
      and p: "\<And>st. snd (settle p st) = st"
    using assms(6) by (simp add: start_runInstantQuery_def request_eq Let_def)
  obtain q where live: "start_runRangeQueryWithFallback D ds ?t options 1 ?s1 = (q, ?s1)"
      and q: "\<And>st. requests (snd (settle q st)) = requests st"
      and qa: "\<And>st. abandon q st = st"
    using assms(3) cached
    by (simp add: start_runRangeQueryWithFallback_def start_runLiveQuery_def start_getVersion_cached
        mergeMap_def from_promise_def streams_getStream_def streams_getLegacyStream_def Let_def
        split: prod.splits obs.splits ending.splits)
  have "query D ds options s = merge [p, q] ?s1"
    using assms(1,2,4,5) instant live by (simp add: query_def Let_def)
  then have "requests (snd (query D ds options s)) = requests (snd (merge [p, q] ?s1))"
    by simp
  also have "\<dots> = requests ?s1"
    using p [of ?s1] q [of ?s1] qa [of ?s1]
    by (cases "settle p ?s1"; cases "settle q ?s1") (auto split: obs.splits ending.splits)
  finally show ?thesis by simp
qed

text \<open>
  C2, at a concrete dispatch: one live target in Metrics mode, the version cached as
  \<^verbatim>\<open>v1\<close>. The claim has the execution of the target be the live-stream subscription, with
  no HTTP request; the code sends the instant request to \<^verbatim>\<open>/loki/api/v1/query\<close> for the
  target and emits its table next to the batches of the live stream.
\<close>

theorem metrics_mode_live_target_instant_request:
  "liveStreaming liveTarget
   \<and> cachedVersion (initialState\<lparr>version := Some ''v1''\<rparr>) = Some ''v1''
   \<and> requests (snd (query (exampleCollaborators (modernBackend ''vector'')) exampleDatasource
        (exampleOptions [liveTarget] (Some Metrics) None) (initialState\<lparr>version := Some ''v1''\<rparr>)))
       = [\<lparr>url = ''http://loki/loki/api/v1/query'',
           params = Some (InstantParams
             \<lparr>i_query = ''{job=app}'', i_time = 1600000061000000000, i_limit = 1000\<rparr>)\<rparr>]
   \<and> fst (query (exampleCollaborators (modernBackend ''vector'')) exampleDatasource
        (exampleOptions [liveTarget] (Some Metrics) None) (initialState\<lparr>version := Some ''v1''\<rparr>))
       = Obs [\<lparr>data = [\<lparr>datapoints = None, content = ''table:modern-result''\<rparr>],
                key = Some ''A_instant'', state = None\<rparr>,
              \<lparr>data = [\<lparr>datapoints = None, content = ''tail''\<rparr>],
                key = Some ''loki-A'', state = Some Streaming\<rparr>] Active"
  by (simp add: example_defs query_def start_runRangeQueryWithFallback_def start_runLiveQuery_def
      start_getVersion_def cachedVersion_def request_eq INSTANT_QUERY_ENDPOINT_def mergeMap_def
      from_promise_def catchError_def filter_obs_def streams_getStream_def
      streams_getLegacyStream_def join_ending_def map_obs_def start_runInstantQuery_def
      instantQuery_def getTime_def js_rem_def LokiResultType_Stream_def createLiveTarget_def
      createLegacyLiveTarget_def lineLimit_def Let_def)

text \<open>
  Every call of \<^verbatim>\<open>getVersion\<close> that finds no version sends a probe. The calls of one dispatch
  are all made before a probe has settled, so two live targets on a datasource without a
  version send two probes.
\<close>

lemma fresh_live_targets_probe_each:
  "map url (requests (snd (query (exampleCollaborators (modernBackend ''streams'')) exampleDatasource
        (exampleOptions [liveTarget, liveTarget] (Some Logs) None) initialState)))
       = [''http://loki/loki/api/v1/query_range'', ''http://loki/loki/api/v1/query_range'']
   \<and> map params (requests (snd (query (exampleCollaborators (modernBackend ''streams''))
        exampleDatasource (exampleOptions [liveTarget, liveTarget] (Some Logs) None) initialState)))
       = [None, None]"
  by (simp add: example_defs query_def start_runRangeQueryWithFallback_def start_runLiveQuery_def
      start_getVersion_def cachedVersion_def request_eq RANGE_QUERY_ENDPOINT_def mergeMap_def
      from_promise_def streams_getStream_def streams_getLegacyStream_def join_ending_def
      map_obs_def createLiveTarget_def createLegacyLiveTarget_def lineLimit_def Let_def)

subsection \<open>The version\<close>

text \<open>
  C3: \<^verbatim>\<open>getVersion\<close> never rejects, it resolves with a version for every outcome of the
  probe; with no version cached it resolves \<^verbatim>\<open>v0\<close> exactly when the probe is rejected with
  status 404 and \<^verbatim>\<open>v1\<close> otherwise (probe success or any other failure), after exactly one
  probe; a second call returns the same value and leaves the datasource as it is (no further
  probe); and a cached version is returned without a probe and is kept by every operation
  of the datasource.
\<close>

theorem getVersion_resolves_and_caches:
  "(\<exists>v. fst (getVersion D ds s) = Resolved v)
   \<and> (cachedVersion s = None \<longrightarrow>
        (fst (getVersion D ds s) = Resolved ''v0'')
          = (\<exists>err. datasourceRequest D \<lparr>url = baseUrl ds @ ''/loki/api/v1/query_range'', params = None\<rparr>
                     = Rejected err \<and> status err = Some 404)
      \<and> (fst (getVersion D ds s) = Resolved ''v1'')
          = (\<not> (\<exists>err. datasourceRequest D \<lparr>url = baseUrl ds @ ''/loki/api/v1/query_range'', params = None\<rparr>
                     = Rejected err \<and> status err = Some 404))
      \<and> requests (snd (getVersion D ds s))
          = requests s @ [\<lparr>url = baseUrl ds @ ''/loki/api/v1/query_range'', params = None\<rparr>])
   \<and> getVersion D ds (snd (getVersion D ds s)) = (fst (getVersion D ds s), snd (getVersion D ds s))
   \<and> (cachedVersion s = Some v \<longrightarrow>
        getVersion D ds s = (Resolved v, s)
      \<and> cachedVersion (snd (query D ds options s)) = Some v
      \<and> cachedVersion (snd (runRangeQueryWithFallback D ds target options n s)) = Some v
      \<and> cachedVersion (snd (runInstantQuery D ds target options n s)) = Some v
      \<and> cachedVersion (snd (runLegacyQuery D ds target options s)) = Some v
      \<and> cachedVersion (snd (runLiveQuery D ds target options s)) = Some v)"
proof -
  have resolves: "\<exists>v. fst (getVersion D ds s) = Resolved v"
    using getVersion_settles [of D ds s] by blast
  have probe: "(fst (getVersion D ds s) = Resolved ''v0'')
          = (\<exists>err. datasourceRequest D \<lparr>url = baseUrl ds @ ''/loki/api/v1/query_range'', params = None\<rparr>
                     = Rejected err \<and> status err = Some 404)
      \<and> (fst (getVersion D ds s) = Resolved ''v1'')
          = (\<not> (\<exists>err. datasourceRequest D \<lparr>url = baseUrl ds @ ''/loki/api/v1/query_range'', params = None\<rparr>
                     = Rejected err \<and> status err = Some 404))
      \<and> requests (snd (getVersion D ds s))
          = requests s @ [\<lparr>url = baseUrl ds @ ''/loki/api/v1/query_range'', params = None\<rparr>]"
    if "cachedVersion s = None"
  proof -
    from getVersion_probe [OF that, of D ds] obtain w where
      w: "w = ''v0'' \<or> w = ''v1''" and
      iff: "(w = ''v0'') = (\<exists>err. datasourceRequest D \<lparr>url = baseUrl ds @ RANGE_QUERY_ENDPOINT, params = None\<rparr> = Rejected err
                          \<and> status err = Some 404)" and
      g: "getVersion D ds s =
         (Resolved w,
          s\<lparr>requests := requests s @ [\<lparr>url = baseUrl ds @ RANGE_QUERY_ENDPOINT, params = None\<rparr>],
            version := Some w\<rparr>)"
      by blast
    from w iff show ?thesis
      by (auto simp: g RANGE_QUERY_ENDPOINT_def)
  qed
  have again: "getVersion D ds (snd (getVersion D ds s)) = (fst (getVersion D ds s), snd (getVersion D ds s))"
  proof -
    from getVersion_settles [of D ds s] obtain w where
      f: "fst (getVersion D ds s) = Resolved w" and
      c: "cachedVersion (snd (getVersion D ds s)) = Some w"
      by blast
    from c have "getVersion D ds (snd (getVersion D ds s)) = (Resolved w, snd (getVersion D ds s))"
      by (rule getVersion_cached)
    with f show ?thesis by (simp only:)
  qed
  have kept: "getVersion D ds s = (Resolved v, s)
      \<and> cachedVersion (snd (query D ds options s)) = Some v
      \<and> cachedVersion (snd (runRangeQueryWithFallback D ds target options n s)) = Some v
      \<and> cachedVersion (snd (runInstantQuery D ds target options n s)) = Some v
      \<and> cachedVersion (snd (runLegacyQuery D ds target options s)) = Some v
      \<and> cachedVersion (snd (runLiveQuery D ds target options s)) = Some v"
    if "cachedVersion s = Some v"
    using that
    by (simp add: getVersion_cached query_cached runRangeQueryWithFallback_cached
        runInstantQuery_cached runLegacyQuery_cached runLiveQuery_cached)
  from resolves probe again kept show ?thesis by blast
qed

text \<open>The theorem of C3 at a backend that rejects the probe with 404, and at a cached version.\<close>

theorem getVersion_resolves_and_caches_witness:
  "cachedVersion initialState = None
   \<and> fst (getVersion (exampleCollaborators legacyOnlyBackend) exampleDatasource initialState) = Resolved ''v0''
   \<and> map url (requests (snd (getVersion (exampleCollaborators legacyOnlyBackend) exampleDatasource initialState)))
       = [''http://loki/loki/api/v1/query_range'']
   \<and> cachedVersion (initialState\<lparr>version := Some ''v1''\<rparr>) = Some ''v1''
   \<and> getVersion (exampleCollaborators legacyOnlyBackend) exampleDatasource (initialState\<lparr>version := Some ''v1''\<rparr>)
       = (Resolved ''v1'', initialState\<lparr>version := Some ''v1''\<rparr>)"
  using getVersion_resolves_and_caches [of "exampleCollaborators legacyOnlyBackend" exampleDatasource initialState
      "''v1''" "exampleOptions [] None None" exampleTarget 1]
    getVersion_resolves_and_caches [of "exampleCollaborators legacyOnlyBackend" exampleDatasource
      "initialState\<lparr>version := Some ''v1''\<rparr>" "''v1''" "exampleOptions [] None None" exampleTarget 1]
  by (simp add: example_defs cachedVersion_def)

subsection \<open>Interval calibration\<close>

text \<open>
  C4, as stated, fails: for an interval of 1 ms over a range of 22000 ms the ratio exceeds
  11000, yet the result is the floor 1000 and not \<open>\<lceil>22000 / 11000\<rceil> = 2\<close>.
\<close>

theorem adjustInterval_floor_counterexample: "(22000::real) / 1 > 11000 \<and> adjustInterval 1 22000 \<noteq> of_int \<lceil>(22000::real) / 11000\<rceil>"
  by (simp add: adjustInterval_def)

text \<open>
  C4, amended: for every non-zero \<^verbatim>\<open>intervalMs\<close> and every \<^verbatim>\<open>rangeMs\<close> with
  \<^verbatim>\<open>rangeMs / intervalMs > 11000\<close>, \<^verbatim>\<open>adjustInterval\<close> returns the larger of
  \<open>\<lceil>rangeMs / 11000\<rceil>\<close> and 1000, which is \<open>\<lceil>rangeMs / 11000\<rceil>\<close> whenever that is at least
  1000; and for every input the result is never below 1000 ms.
\<close>

theorem adjustInterval_calibrated: "(interval \<noteq> 0 \<and> rng / interval > 11000 \<longrightarrow>
       adjustInterval interval rng = max (of_int \<lceil>rng / 11000\<rceil>) 1000
     \<and> (1000 \<le> \<lceil>rng / 11000\<rceil> \<longrightarrow> adjustInterval interval rng = of_int \<lceil>rng / 11000\<rceil>))
   \<and> 1000 \<le> adjustInterval interval rng"
proof -
  have floor: "1000 \<le> adjustInterval interval rng"
    by (simp add: adjustInterval_def Let_def)
  have recomputed: "adjustInterval interval rng = max (of_int \<lceil>rng / 11000\<rceil>) 1000"
    if "interval \<noteq> 0" "rng / interval > 11000"
    using that by (simp add: adjustInterval_def Let_def)
  have "max (real_of_int \<lceil>rng / 11000\<rceil>) 1000 = of_int \<lceil>rng / 11000\<rceil>"
    if "1000 \<le> \<lceil>rng / 11000\<rceil>"
  proof -
    from that have "real_of_int 1000 \<le> real_of_int \<lceil>rng / 11000\<rceil>"
      by (simp only: of_int_le_iff)
    then show ?thesis by linarith
  qed
  with floor recomputed show ?thesis by simp
qed

text \<open>The theorem of C4 above the floor, below it, and where the interval is kept.\<close>

theorem adjustInterval_calibrated_witness: "(4::real) \<noteq> 0 \<and> (88000000::real) / 4 > 11000 \<and> adjustInterval 4 88000000 = 8000
   \<and> adjustInterval 1 22000 = 1000 \<and> adjustInterval 250 5000 = 1000"
  using adjustInterval_calibrated [of 4 88000000] adjustInterval_calibrated [of 1 22000] adjustInterval_calibrated[of 250 5000] by (simp add: adjustInterval_def)

text \<open>
  C10: for every range, \<^verbatim>\<open>adjustInterval(0, range)\<close> is 1000: the guard
  \<^verbatim>\<open>interval !== 0\<close> keeps a zero interval out of the recomputation, and the floor is the
  result however large the range is.
\<close>

theorem adjustInterval_zero_interval: "adjustInterval 0 rng = 1000"
  by (simp add: adjustInterval_def)

text \<open>The theorem of C10 at a range whose recomputed interval would be 2000, and at a negative one.\<close>

theorem adjustInterval_zero_interval_witness: "adjustInterval 0 22000000 = 1000 \<and> adjustInterval 0 (-5) = 1000"
  using adjustInterval_zero_interval [of 22000000] adjustInterval_zero_interval [of "-5"] by simp

subsection \<open>Alignment of the range\<close>

text \<open>
  C5, as stated, fails before the epoch: for a window that starts 1 ms before 1970,
  \<^verbatim>\<open>startNs\<close> is \<open>-1000000\<close>, its remainder is negative, and the aligned start is 0, later
  than \<^verbatim>\<open>startNs\<close>.
\<close>

theorem aligned_range_counterexample:
  "timeRange \<lparr>targets = [], timeRange = Some \<lparr>range_from = DateTime (- 1), range_to = DateTime 0\<rparr>,
        intervalMs = Some 1000, maxDataPoints = None, reverse = False, exploreMode = None\<rparr>
     = Some \<lparr>range_from = DateTime (- 1), range_to = DateTime 0\<rparr>
   \<and> getTime (exampleCollaborators legacyOnlyBackend) (DateTime (- 1)) False = - 1000000
   \<and> getTime (exampleCollaborators legacyOnlyBackend) (DateTime 0) True = 0
   \<and> r_start (createRangeQuery (exampleCollaborators legacyOnlyBackend) exampleDatasource exampleTarget
      \<lparr>targets = [], timeRange = Some \<lparr>range_from = DateTime (- 1), range_to = DateTime 0\<rparr>,
        intervalMs = Some 1000, maxDataPoints = None, reverse = False, exploreMode = None\<rparr>) = Some 0
   \<and> fst (alignedTimes (- 1000000) 0) = 0
   \<and> \<not> fst (alignedTimes (- 1000000) 0) \<le> - 1000000"
  by (simp add: createRangeQuery_def alignedTimes_def js_rem_def getTime_def Let_def)

text \<open>
  C5, amended: for every \<^verbatim>\<open>startNs\<close> and \<^verbatim>\<open>endNs\<close>, both aligned bounds are exact multiples
  of \<^verbatim>\<open>1e9\<close> and the aligned end is not before \<^verbatim>\<open>endNs\<close>; for every \<^verbatim>\<open>startNs >= 0\<close> the
  aligned start is not after \<^verbatim>\<open>startNs\<close>, so that the aligned window contains the input
  window. A range query built from a window with a range and a non-zero interval has
  \<^verbatim>\<open>start = startNs - startNs % 1e9\<close> and \<^verbatim>\<open>end = endNs + (1e9 - endNs % 1e9)\<close>.
\<close>

theorem aligned_range_bounds:
  "1000000000 dvd fst (alignedTimes startNs endNs)
   \<and> 1000000000 dvd snd (alignedTimes startNs endNs)
   \<and> endNs \<le> snd (alignedTimes startNs endNs)
   \<and> (0 \<le> startNs \<longrightarrow> fst (alignedTimes startNs endNs) \<le> startNs)
   \<and> (timeRange options = Some r \<and> intervalMs options = Some i \<and> i \<noteq> 0 \<longrightarrow>
        r_start (createRangeQuery D ds target options)
          = Some (getTime D (range_from r) False - js_rem (getTime D (range_from r) False) 1000000000)
      \<and> r_end (createRangeQuery D ds target options)
          = Some (getTime D (range_to r) True
                  + (1000000000 - js_rem (getTime D (range_to r) True) 1000000000))
      \<and> r_start (createRangeQuery D ds target options)
          = Some (fst (alignedTimes (getTime D (range_from r) False) (getTime D (range_to r) True)))
      \<and> r_end (createRangeQuery D ds target options)
          = Some (snd (alignedTimes (getTime D (range_from r) False) (getTime D (range_to r) True))))"
proof -
  have d1: "1000000000 dvd (startNs - js_rem startNs 1000000000)"
    by (rule js_rem_dvd)
  have d2: "1000000000 dvd (endNs - js_rem endNs 1000000000)"
    by (rule js_rem_dvd)
  have e: "endNs + (1000000000 - js_rem endNs 1000000000)
             = (endNs - js_rem endNs 1000000000) + 1000000000"
    by simp
  have d3: "1000000000 dvd (endNs + (1000000000 - js_rem endNs 1000000000))"
    unfolding e using d2 by (rule dvd_add) simp
  have b: "\<bar>js_rem endNs 1000000000\<bar> < 1000000000"
    using js_rem_bound [of 1000000000 endNs] by simp
  have bounds: "1000000000 dvd fst (alignedTimes startNs endNs)
   \<and> 1000000000 dvd snd (alignedTimes startNs endNs)
   \<and> endNs \<le> snd (alignedTimes startNs endNs)
   \<and> (0 \<le> startNs \<longrightarrow> fst (alignedTimes startNs endNs) \<le> startNs)"
    using d1 d3 b js_rem_ge0 [of startNs 1000000000] by (simp add: alignedTimes_def)
  have built: "r_start (createRangeQuery D ds target options)
          = Some (getTime D (range_from r) False - js_rem (getTime D (range_from r) False) 1000000000)
      \<and> r_end (createRangeQuery D ds target options)
          = Some (getTime D (range_to r) True
                  + (1000000000 - js_rem (getTime D (range_to r) True) 1000000000))
      \<and> r_start (createRangeQuery D ds target options)
          = Some (fst (alignedTimes (getTime D (range_from r) False) (getTime D (range_to r) True)))
      \<and> r_end (createRangeQuery D ds target options)
          = Some (snd (alignedTimes (getTime D (range_from r) False) (getTime D (range_to r) True)))"
    if "timeRange options = Some r" "intervalMs options = Some i" "i \<noteq> 0"
    using that by (simp add: createRangeQuery_def alignedTimes_def Let_def)
  from bounds built show ?thesis by blast
qed

text \<open>The theorem of C5 at a window of September 2020.\<close>

theorem aligned_range_bounds_witness:
  "(0 :: int) \<le> 1600000000123000000
   \<and> alignedTimes 1600000000123000000 1600000060500000000 = (1600000000000000000, 1600000061000000000)
   \<and> timeRange (exampleOptions [] None None)
       = Some \<lparr>range_from = DateTime 1600000000000, range_to = DateTime 1600000060500\<rparr>
   \<and> intervalMs (exampleOptions [] None None) = Some 1000 \<and> (1000 :: real) \<noteq> 0
   \<and> r_start (createRangeQuery (exampleCollaborators legacyOnlyBackend) exampleDatasource exampleTarget
        (exampleOptions [] None None)) = Some 1600000000000000000
   \<and> r_end (createRangeQuery (exampleCollaborators legacyOnlyBackend) exampleDatasource exampleTarget
        (exampleOptions [] None None)) = Some 1600000061000000000"
  using aligned_range_bounds [of 1600000000123000000 1600000060500000000 "exampleOptions [] None None"
      "\<lparr>range_from = DateTime 1600000000000, range_to = DateTime 1600000060500\<rparr>" 1000
      "exampleCollaborators legacyOnlyBackend" exampleDatasource exampleTarget]
  by (simp add: exampleOptions_def alignedTimes_def js_rem_def getTime_def)

subsection \<open>Instant queries\<close>

text \<open>
  C6: when the backend answers an instant query (not cancelled) and the response declares
  the result type \<^verbatim>\<open>"streams"\<close>, \<^verbatim>\<open>runInstantQuery\<close> fails with the error "Metrics mode does
  not support logs" and emits no envelope; for any other result type it emits one envelope,
  keyed \<^verbatim>\<open><refId>_instant\<close>, whose data is the one table of \<^verbatim>\<open>lokiResultsToTableModel\<close>.
\<close>

theorem runInstantQuery_result_type:
  assumes "timeRange options = Some r"
      and "datasourceRequest D
             \<lparr>url = baseUrl ds @ ''/loki/api/v1/query'',
              params = Some (InstantParams (instantQuery D ds target options (getTime D (range_to r) True)))\<rparr>
           = Resolved response"
      and "\<not> cancelled response"
      and "payload response = LokiData resultType result"
  shows "fst (runInstantQuery D ds target options n s) =
     (if resultType = ''streams''
      then Obs [] (Failed (JsError
             ''Metrics mode does not support logs. Use an aggregation or switch to Logs mode.''))
      else Obs [\<lparr>data = [lokiResultsToTableModel D result n (refId target) True],
                 key = Some (refId target @ ''_instant''),
                 state = None\<rparr>] Completed)"
  using assms
  by (simp add: runInstantQuery_def request_eq Let_def INSTANT_QUERY_ENDPOINT_def from_promise_def
      catchError_def filter_obs_def map_obs_def LokiResultType_Stream_def)

text \<open>The theorem of C6 at a response of type \<^verbatim>\<open>streams\<close> and at one of type \<^verbatim>\<open>vector\<close>.\<close>

theorem runInstantQuery_result_type_witness:
  "timeRange (exampleOptions [] (Some Metrics) None)
     = Some \<lparr>range_from = DateTime 1600000000000, range_to = DateTime 1600000060500\<rparr>
   \<and> \<not> cancelled (modernAnswer ''streams'')
   \<and> payload (modernAnswer ''streams'') = LokiData ''streams'' ''modern-result''
   \<and> fst (runInstantQuery (exampleCollaborators (modernBackend ''streams'')) exampleDatasource exampleTarget
          (exampleOptions [] (Some Metrics) None) 1 initialState)
       = Obs [] (Failed (JsError
           ''Metrics mode does not support logs. Use an aggregation or switch to Logs mode.''))
   \<and> payload (modernAnswer ''vector'') = LokiData ''vector'' ''modern-result''
   \<and> fst (runInstantQuery (exampleCollaborators (modernBackend ''vector'')) exampleDatasource exampleTarget
          (exampleOptions [] (Some Metrics) None) 1 initialState)
       = Obs [\<lparr>data = [\<lparr>datapoints = None, content = ''table:modern-result''\<rparr>],
                key = Some ''A_instant'', state = None\<rparr>] Completed"
  using runInstantQuery_result_type [of "exampleOptions [] (Some Metrics) None"
      "\<lparr>range_from = DateTime 1600000000000, range_to = DateTime 1600000060500\<rparr>"
      "exampleCollaborators (modernBackend ''streams'')" exampleDatasource exampleTarget
      "modernAnswer ''streams''" "''streams''" "''modern-result''" 1 initialState]
    runInstantQuery_result_type [of "exampleOptions [] (Some Metrics) None"
      "\<lparr>range_from = DateTime 1600000000000, range_to = DateTime 1600000060500\<rparr>"
      "exampleCollaborators (modernBackend ''vector'')" exampleDatasource exampleTarget
      "modernAnswer ''vector''" "''vector''" "''modern-result''" 1 initialState]
  by (simp add: exampleOptions_def exampleCollaborators_def modernBackend_def modernAnswer_def
      exampleTarget_def)

subsection \<open>Limits\<close>

text \<open>
  C7, as stated, fails for \<^verbatim>\<open>maxDataPoints = 0\<close>: the limit of the instant request and the
  size of the live target are the configured maximum, 1000, and not \<open>min 0 1000 = 0\<close>.
\<close>

theorem limit_counterexample:
  "maxDataPoints (exampleOptions [] None (Some 0)) = Some 0
   \<and> maxLines exampleDatasource = 1000
   \<and> map params (requests (snd (runInstantQuery (exampleCollaborators (modernBackend ''vector''))
        exampleDatasource exampleTarget (exampleOptions [] None (Some 0)) 1 initialState)))
       = [Some (InstantParams \<lparr>i_query = ''{job=app}'', i_time = 1600000061000000000, i_limit = 1000\<rparr>)]
   \<and> t_size (createLiveTarget (exampleCollaborators (modernBackend ''vector'')) exampleDatasource exampleTarget
        (exampleOptions [] None (Some 0))) = 1000
   \<and> min 0 (maxLines exampleDatasource) \<noteq> 1000"
  by (simp add: example_defs runInstantQuery_def request_eq instantQuery_def getTime_def js_rem_def
      lineLimit_def createLiveTarget_def Let_def)

text \<open>
  C7, amended: for every target and time window, the \<^verbatim>\<open>limit\<close> of the instant request that
  is sent and the \<^verbatim>\<open>size\<close> of the live target are \<open>min maxDataPoints maxLines\<close> when
  \<^verbatim>\<open>maxDataPoints\<close> is present and not 0, and the configured \<^verbatim>\<open>maxLines\<close> when it is absent
  or 0.
\<close>

theorem limit_of_requests:
  assumes "timeRange options = Some r"
  shows "(\<exists>q. requests (snd (runInstantQuery D ds target options n s))
               = requests s @ [\<lparr>url = baseUrl ds @ ''/loki/api/v1/query'', params = Some (InstantParams q)\<rparr>]
            \<and> i_limit q = (case maxDataPoints options of
                             None \<Rightarrow> maxLines ds
                           | Some m \<Rightarrow> if m = 0 then maxLines ds else min m (maxLines ds)))
     \<and> t_size (createLiveTarget D ds target options)
           = (case maxDataPoints options of
                None \<Rightarrow> maxLines ds
              | Some m \<Rightarrow> if m = 0 then maxLines ds else min m (maxLines ds))"
  using assms
  by (simp add: runInstantQuery_def request_eq instantQuery_def lineLimit_def createLiveTarget_def
      Let_def INSTANT_QUERY_ENDPOINT_def)

text \<open>The theorem of C7 at \<^verbatim>\<open>maxDataPoints = 500\<close> under the default maximum of 1000.\<close>

theorem limit_of_requests_witness:
  "timeRange (exampleOptions [] None (Some 500))
     = Some \<lparr>range_from = DateTime 1600000000000, range_to = DateTime 1600000060500\<rparr>
   \<and> (\<exists>q. requests (snd (runInstantQuery (exampleCollaborators (modernBackend ''vector''))
              exampleDatasource exampleTarget (exampleOptions [] None (Some 500)) 1 initialState))
            = [\<lparr>url = ''http://loki/loki/api/v1/query'', params = Some (InstantParams q)\<rparr>]
          \<and> i_limit q = 500)
   \<and> t_size (createLiveTarget (exampleCollaborators (modernBackend ''vector'')) exampleDatasource
               exampleTarget (exampleOptions [] None (Some 500))) = 500"
  using limit_of_requests [of "exampleOptions [] None (Some 500)"
      "\<lparr>range_from = DateTime 1600000000000, range_to = DateTime 1600000060500\<rparr>"
      "exampleCollaborators (modernBackend ''vector'')" exampleDatasource exampleTarget 1 initialState]
  by (simp add: exampleOptions_def exampleDatasource_def initialState_def configuredMaxLines_def
      DEFAULT_MAX_LINES_def)

subsection \<open>Dispatch without eligible targets\<close>

text \<open>
  C8: when every target of the batch has an empty expression or the hide flag, \<^verbatim>\<open>query\<close>
  returns exactly one envelope, with empty data and state \<^verbatim>\<open>Done\<close>, and leaves the
  datasource as it was: no request and no live stream.
\<close>

theorem query_without_eligible_targets:
  assumes "\<forall>t \<in> set (targets options). expr t = [] \<or> hide t"
  shows "query D ds options s = (Obs [\<lparr>data = [], key = None, state = Some Done\<rparr>] Completed, s)"
proof -
  from assms have "filter (\<lambda>target. expr target \<noteq> [] \<and> \<not> hide target) (targets options) = []"
    by (auto simp: filter_empty_conv)
  then show ?thesis
    by (simp add: query_def Let_def of_obs_def)
qed

text \<open>The theorem of C8 at a hidden target and a target with an empty expression, in Metrics mode.\<close>

theorem query_without_eligible_targets_witness:
  "hide (exampleTarget\<lparr>hide := True\<rparr>) \<and> expr (liveTarget\<lparr>expr := []\<rparr>) = []
   \<and> targets (exampleOptions [exampleTarget\<lparr>hide := True\<rparr>, liveTarget\<lparr>expr := []\<rparr>] (Some Metrics) None)
       = [exampleTarget\<lparr>hide := True\<rparr>, liveTarget\<lparr>expr := []\<rparr>]
   \<and> query (exampleCollaborators legacyOnlyBackend) exampleDatasource
       (exampleOptions [exampleTarget\<lparr>hide := True\<rparr>, liveTarget\<lparr>expr := []\<rparr>] (Some Metrics) None) initialState
     = (Obs [\<lparr>data = [], key = None, state = Some Done\<rparr>] Completed, initialState)
   \<and> requests initialState = [] \<and> subscriptions initialState = []"
  using query_without_eligible_targets [of
      "exampleOptions [exampleTarget\<lparr>hide := True\<rparr>, liveTarget\<lparr>expr := []\<rparr>] (Some Metrics) None"
      "exampleCollaborators legacyOnlyBackend" exampleDatasource initialState]
  by (simp add: exampleOptions_def exampleTarget_def liveTarget_def initialState_def)

subsection \<open>Escaping\<close>

text \<open>
  What \<^verbatim>\<open>lokiSpecialRegexEscape\<close> computes on \<^verbatim>\<open>a.b\<close>: the dot is preceded by two
  backslashes.
\<close>

lemma lokiSpecialRegexEscape_example: "lokiSpecialRegexEscape ''a.b'' = [CHR ''a'', CHR 0x5C, CHR 0x5C, CHR ''.'', CHR ''b'']"
  by (simp add: lokiSpecialRegexEscape_def lokiRegularEscape_def)

end
